theory Spec2Isabelle
  imports Complex_Main
begin

section \<open>Persisted state\<close>

text \<open>
  The handlers of \<^verbatim>\<open>backend.js\<close> talk to five tables through \<^verbatim>\<open>query\<close>. Each
  table is a list of rows in insertion order. Columns filled by the database itself
  (serial identifiers, \<^verbatim>\<open>created_at\<close>, \<^verbatim>\<open>updated_at\<close>) are not read by any handler
  modelled here and are left out.
\<close>

record account =
  account_id :: string
  account_name :: string
  account_type :: string

record transaction =
  debit_account :: string
  credit_account :: string
  tx_amount_cents :: int
  tx_currency :: string
  external_ref :: string

record payment_intent =
  provider :: string
  provider_id :: string
  amount_cents :: int
  currency :: string
  status :: string

text \<open>The object \<^verbatim>\<open>{ id, client_secret, status }\<close> sent to the client and stored as
  \<^verbatim>\<open>response_json\<close>.\<close>

record intent_json =
  json_id :: string
  json_client_secret :: string
  json_status :: string

record idempotency_key =
  idem_key :: string
  endpoint :: string
  response_json :: intent_json

record webhook_event =
  event_id :: string
  event_type :: string
  payload_hash :: string

text \<open>The parameters of one \<^verbatim>\<open>stripe.paymentIntents.create\<close> call, with the
  \<^verbatim>\<open>idempotencyKey\<close> option.\<close>

record create_call =
  call_amount :: int
  call_currency :: string
  call_metadata :: "(string \<times> string) list"
  call_idempotencyKey :: string

text \<open>
  The state a request runs against: the five tables, and the calls issued so far to the
  remote processor's create-intent operation (a history of the outbound effect, so that
  "no remote call is made" can be stated).
\<close>

record world =
  accounts :: "account list"
  transactions :: "transaction list"
  payment_intents :: "payment_intent list"
  idempotency_keys :: "idempotency_key list"
  webhook_events :: "webhook_event list"
  stripe_requests :: "create_call list"

section \<open>External collaborators\<close>

text \<open>The fields of a Stripe PaymentIntent object that the handlers read.\<close>

record stripe_payment_intent =
  pi_id :: string
  pi_amount_received :: int
  pi_currency :: string
  pi_customer :: "string option"
  pi_client_secret :: string
  pi_status :: string

record stripe_event =
  ev_id :: string
  ev_type :: string
  ev_object :: stripe_payment_intent

text \<open>
  What the outside world answers during one request: \<^verbatim>\<open>stripe.webhooks.constructEvent\<close>
  (under the configured webhook secret) either throws, with a message, or returns the
  parsed event; \<^verbatim>\<open>crypto.createHash("sha256")\<close>; \<^verbatim>\<open>crypto.randomUUID()\<close>; and
  \<^verbatim>\<open>stripe.paymentIntents.create\<close>, which either throws or returns the created intent.
\<close>

record env =
  constructEvent :: "string \<Rightarrow> string option \<Rightarrow> string + stripe_event"
  sha256_hex :: "string \<Rightarrow> string"
  randomUUID :: string
  paymentIntents_create :: "create_call \<Rightarrow> string + stripe_payment_intent"

section \<open>Errors and responses\<close>

text \<open>
  The exceptions a handler can meet: an error thrown by the Stripe SDK (with its
  message), the \<^verbatim>\<open>TypeError\<close> of reading \<^verbatim>\<open>.id\<close> of \<^verbatim>\<open>undefined\<close>, a uniqueness
  violation reported by the database for the named table, and the two refusals of the
  ledger store.
\<close>

datatype error =
  Thrown string
| TypeError_undefined
| Unique_violation string
| InvalidAmount
| UnknownAccount

datatype body =
  Json_ok
| Json_ok_deduped
| Text_webhook_error error
| Json_error string
| Json_intent intent_json

type_synonym response = "nat \<times> body"

section \<open>The SQL statements\<close>

text \<open>
  Modelled from the spec: the declarations of the tables are not among the sources. The
  uniqueness constraints are those of the persisted state layout: \<^verbatim>\<open>payment_intents\<close>
  unique on the processor-assigned id (which \<^verbatim>\<open>ON CONFLICT (provider_id)\<close> needs),
  \<^verbatim>\<open>idempotency_keys\<close> unique on key and endpoint, \<^verbatim>\<open>webhook_events\<close> unique on the
  event id, and accounts identified by a unique id. The \<^verbatim>\<open>transactions\<close> table
  keeps the conditions of the ledger store (see \<open>insert_transaction\<close>). No other
  constraint is assumed. A statement without an \<^verbatim>\<open>ON CONFLICT\<close> clause that meets a
  constraint raises and changes nothing. Every statement is committed on its own (no handler opens a
  transaction), and the database is taken to answer every statement: a lost connection
  is not modelled.
\<close>

definition select_webhook_event :: "string \<Rightarrow> world \<Rightarrow> webhook_event list" where
  "select_webhook_event eid w = filter (\<lambda>r. event_id r = eid) (webhook_events w)"

definition upsert_payment_intent_succeeded :: "string \<Rightarrow> int \<Rightarrow> string \<Rightarrow> world \<Rightarrow> world" where
  "upsert_payment_intent_succeeded pid amt cur w =
     (if filter (\<lambda>r. provider_id r = pid) (payment_intents w) = []
      then w\<lparr>payment_intents := payment_intents w @
             [\<lparr>provider = ''stripe'', provider_id = pid, amount_cents = amt,
               currency = cur, status = ''succeeded''\<rparr>]\<rparr>
      else w\<lparr>payment_intents :=
             map (\<lambda>r. if provider_id r = pid then r\<lparr>status := ''succeeded''\<rparr> else r)
               (payment_intents w)\<rparr>)"

definition select_escrow :: "world \<Rightarrow> account list" where
  "select_escrow w = take 1 (filter (\<lambda>a. account_type a = ''platform_escrow'') (accounts w))"

definition insert_customer_account :: "string \<Rightarrow> string \<Rightarrow> world \<Rightarrow> world" where
  "insert_customer_account aid nm w =
     (if filter (\<lambda>a. account_id a = aid) (accounts w) = []
      then w\<lparr>accounts := accounts w @
             [\<lparr>account_id = aid, account_name = nm, account_type = ''customer''\<rparr>]\<rparr>
      else w)"

text \<open>
  Modelled from the spec: the declaration of the \<^verbatim>\<open>transactions\<close> table is in no source
  file, and the handler itself checks nothing before the \<^verbatim>\<open>INSERT\<close> of lines 46 to 50.
  The ledger store refuses a transaction whose amount is not greater than zero
  (\<open>InvalidAmount\<close>) and one whose debit or credit account is absent
  (\<open>UnknownAccount\<close>); a refused statement raises and changes nothing.
\<close>

definition insert_transaction :: "transaction \<Rightarrow> world \<Rightarrow> error + world" where
  "insert_transaction t w =
     (if tx_amount_cents t \<le> 0 then Inl InvalidAmount
      else if debit_account t \<notin> account_id ` set (accounts w) \<or>
              credit_account t \<notin> account_id ` set (accounts w)
      then Inl UnknownAccount
      else Inr (w\<lparr>transactions := transactions w @ [t]\<rparr>))"

definition insert_webhook_event :: "webhook_event \<Rightarrow> world \<Rightarrow> error + world" where
  "insert_webhook_event r w =
     (if filter (\<lambda>x. event_id x = event_id r) (webhook_events w) = []
      then Inr (w\<lparr>webhook_events := webhook_events w @ [r]\<rparr>)
      else Inl (Unique_violation ''webhook_events''))"

definition select_idempotency_key :: "string \<Rightarrow> string \<Rightarrow> world \<Rightarrow> idempotency_key list" where
  "select_idempotency_key k ep w =
     filter (\<lambda>r. idem_key r = k \<and> endpoint r = ep) (idempotency_keys w)"

definition insert_payment_intent :: "payment_intent \<Rightarrow> world \<Rightarrow> world" where
  "insert_payment_intent r w =
     (if filter (\<lambda>x. provider_id x = provider_id r) (payment_intents w) = []
      then w\<lparr>payment_intents := payment_intents w @ [r]\<rparr>
      else w)"

definition insert_idempotency_key :: "idempotency_key \<Rightarrow> world \<Rightarrow> error + world" where
  "insert_idempotency_key r w =
     (if select_idempotency_key (idem_key r) (endpoint r) w = []
      then Inr (w\<lparr>idempotency_keys := idempotency_keys w @ [r]\<rparr>)
      else Inl (Unique_violation ''idempotency_keys''))"

section \<open>POST /v1/webhooks/stripe\<close>

record webhook_request =
  raw_body :: string
  stripe_signature :: "string option"

text \<open>
  Lines 23 to 29: the signature check, the payload hash and the de-duplication query.
  The result is either the response that ends the request, or the verified event and
  the hash, with which the handler goes on after the \<^verbatim>\<open>await\<close>.
\<close>

definition webhook_dedup :: "env \<Rightarrow> webhook_request \<Rightarrow> world \<Rightarrow> response + stripe_event \<times> string" where
  "webhook_dedup e r w =
     (case constructEvent e (raw_body r) (stripe_signature r) of
        Inl msg \<Rightarrow> Inl (400, Text_webhook_error (Thrown msg))
      | Inr event \<Rightarrow>
          (let payloadHash = sha256_hex e (raw_body r);
               existed = select_webhook_event (ev_id event) w
           in if existed \<noteq> [] then Inl (200, Json_ok_deduped)
              else Inr (event, payloadHash)))"

text \<open>
  Lines 33 to 50, the \<^verbatim>\<open>payment_intent.succeeded\<close> branch, on the event's object
  (\<^verbatim>\<open>pi\<close> in the source). Every statement is
  committed on its own: when \<^verbatim>\<open>escrow[0].id\<close> throws, or the ledger store refuses the
  transaction, the upsert and the customer account written before stay, so the error
  comes with the state reached.
\<close>

definition payment_succeeded :: "env \<Rightarrow> stripe_payment_intent \<Rightarrow> world \<Rightarrow> error \<times> world + world" where
  "payment_succeeded e obj w =
     (let w1 = upsert_payment_intent_succeeded (pi_id obj) (pi_amount_received obj) (pi_currency obj) w;
          escrow = select_escrow w1;
          customerAccountId = randomUUID e;
          w2 = insert_customer_account customerAccountId
                 (''Customer '' @ (case pi_customer obj of None \<Rightarrow> ''anon'' | Some c \<Rightarrow> c)) w1
      in case escrow of
           [] \<Rightarrow> Inl (TypeError_undefined, w2)
         | a # _ \<Rightarrow>
             (case insert_transaction
                     \<lparr>debit_account = customerAccountId, credit_account = account_id a,
                      tx_amount_cents = pi_amount_received obj, tx_currency = pi_currency obj,
                      external_ref = pi_id obj\<rparr> w2 of
                Inl err \<Rightarrow> Inl (err, w2)
              | Inr w3 \<Rightarrow> Inr w3))"

text \<open>Lines 31 to 63: the dispatch on the event type, the recording of the event, and
  the \<^verbatim>\<open>catch\<close>.\<close>

definition webhook_handle :: "env \<Rightarrow> stripe_event \<Rightarrow> string \<Rightarrow> world \<Rightarrow> response \<times> world" where
  "webhook_handle e event payloadHash w =
     (case (if ev_type event = ''payment_intent.succeeded''
            then payment_succeeded e (ev_object event) w
            else Inr w) of
        Inl (err, w') \<Rightarrow> ((400, Text_webhook_error err), w')
      | Inr w1 \<Rightarrow>
          (case insert_webhook_event
                  \<lparr>event_id = ev_id event, event_type = ev_type event,
                   payload_hash = payloadHash\<rparr> w1 of
             Inl err \<Rightarrow> ((400, Text_webhook_error err), w1)
           | Inr w2 \<Rightarrow> ((200, Json_ok), w2)))"

definition webhook_stripe :: "env \<Rightarrow> webhook_request \<Rightarrow> world \<Rightarrow> response \<times> world" where
  "webhook_stripe e r w =
     (case webhook_dedup e r w of
        Inl resp \<Rightarrow> (resp, w)
      | Inr (event, payloadHash) \<Rightarrow> webhook_handle e event payloadHash w)"

text \<open>
  Two deliveries of the same request on two workers. Every \<^verbatim>\<open>await\<close> gives the other
  request room to run; in this schedule both de-duplication queries are answered from
  the starting state before either request goes on, the first request then runs to its
  end, and the second after it.
\<close>

definition webhook_interleaved :: "env \<Rightarrow> env \<Rightarrow> webhook_request \<Rightarrow> world \<Rightarrow> (response \<times> response) \<times> world" where
  "webhook_interleaved e1 e2 r w =
     (let d1 = webhook_dedup e1 r w;
          d2 = webhook_dedup e2 r w;
          (resp1, w1) = (case d1 of Inl resp \<Rightarrow> (resp, w)
                         | Inr (event, payloadHash) \<Rightarrow> webhook_handle e1 event payloadHash w);
          (resp2, w2) = (case d2 of Inl resp \<Rightarrow> (resp, w1)
                         | Inr (event, payloadHash) \<Rightarrow> webhook_handle e2 event payloadHash w1)
      in ((resp1, resp2), w2))"

text \<open>
  The same request delivered once per element of the list, one delivery after the other,
  each with the account id that \<^verbatim>\<open>randomUUID\<close> draws for it.
\<close>

fun redeliver :: "env \<Rightarrow> webhook_request \<Rightarrow> string list \<Rightarrow> world \<Rightarrow> response list \<times> world" where
  "redeliver e r [] w = ([], w)"
| "redeliver e r (u # us) w =
     (let (resp, w1) = webhook_stripe (e\<lparr>randomUUID := u\<rparr>) r w;
          (resps, w2) = redeliver e r us w1
      in (resp # resps, w2))"

text \<open>The ledger condition on a state: the two accounts of every transaction exist, and
  its amount is greater than zero.\<close>

definition ledger_ok :: "world \<Rightarrow> bool" where
  "ledger_ok w =
     (\<forall>t \<in> set (transactions w).
        debit_account t \<in> account_id ` set (accounts w) \<and>
        credit_account t \<in> account_id ` set (accounts w) \<and>
        0 < tx_amount_cents t)"

section \<open>POST /v1/payment_intents\<close>

text \<open>
  The value of \<^verbatim>\<open>amount_cents\<close> in the parsed JSON body. A number is given by its value;
  \<^verbatim>\<open>JNonFinite\<close> stands for an infinity (a literal beyond the double range) or
  \<^verbatim>\<open>NaN\<close>.
\<close>

datatype jsval =
  JUndefined
| JNull
| JBool bool
| JString string
| JNumber rat
| JNonFinite

definition Number_isInteger :: "jsval \<Rightarrow> bool" where
  "Number_isInteger v = (case v of JNumber q \<Rightarrow> of_int \<lfloor>q\<rfloor> = q | _ \<Rightarrow> False)"

text \<open>\<^verbatim>\<open>amount_cents <= 0\<close>, which the handler evaluates only on a value that passed
  \<^verbatim>\<open>Number.isInteger\<close>, and the integer such a value is.\<close>

definition le_zero :: "jsval \<Rightarrow> bool" where
  "le_zero v = (case v of JNumber q \<Rightarrow> q \<le> 0 | _ \<Rightarrow> False)"

definition integer_value :: "jsval \<Rightarrow> int" where
  "integer_value v = (case v of JNumber q \<Rightarrow> \<lfloor>q\<rfloor> | _ \<Rightarrow> 0)"

text \<open>The request: the \<^verbatim>\<open>Idempotency-Key\<close> header and the fields of the body
  (\<^verbatim>\<open>None\<close> where the field, or the whole body, is absent).\<close>

record intent_request =
  header_idempotency_key :: "string option"
  body_amount_cents :: jsval
  body_currency :: "string option"
  body_metadata :: "(string \<times> string) list option"

text \<open>Lines 89 to 116: the remote call, the mirror row, the cache entry, and the
  \<^verbatim>\<open>catch\<close>.\<close>

definition create_remote :: "env \<Rightarrow> string \<Rightarrow> int \<Rightarrow> string \<Rightarrow> (string \<times> string) list \<Rightarrow> world \<Rightarrow> response \<times> world" where
  "create_remote e idem amt cur metadata w =
     (let call = \<lparr>call_amount = amt, call_currency = cur, call_metadata = metadata,
                  call_idempotencyKey = idem\<rparr>;
          w1 = w\<lparr>stripe_requests := stripe_requests w @ [call]\<rparr>
      in case paymentIntents_create e call of
           Inl msg \<Rightarrow> ((500, Json_error ''Failed to create payment intent''), w1)
         | Inr obj \<Rightarrow>
             (let w2 = insert_payment_intent
                         \<lparr>provider = ''stripe'', provider_id = pi_id obj, amount_cents = amt,
                          currency = cur, status = pi_status obj\<rparr> w1;
                  response = \<lparr>json_id = pi_id obj, json_client_secret = pi_client_secret obj,
                              json_status = pi_status obj\<rparr>
              in case insert_idempotency_key
                        \<lparr>idem_key = idem, endpoint = ''/v1/payment_intents'',
                         response_json = response\<rparr> w2 of
                   Inl err \<Rightarrow> ((500, Json_error ''Failed to create payment intent''), w2)
                 | Inr w3 \<Rightarrow> ((200, Json_intent response), w3)))"

text \<open>Lines 75 to 87: the defaults, the two validations and the cache lookup. The test
  \<^verbatim>\<open>!idem\<close> holds for an absent header and for an empty one.\<close>

definition create_payment_intent :: "env \<Rightarrow> intent_request \<Rightarrow> world \<Rightarrow> response \<times> world" where
  "create_payment_intent e r w =
     (let amount = body_amount_cents r;
          cur = (case body_currency r of None \<Rightarrow> ''usd'' | Some c \<Rightarrow> c);
          metadata = (case body_metadata r of None \<Rightarrow> [] | Some m \<Rightarrow> m)
      in case header_idempotency_key r of
           None \<Rightarrow> ((400, Json_error ''Missing Idempotency-Key''), w)
         | Some idem \<Rightarrow>
             if idem = [] then ((400, Json_error ''Missing Idempotency-Key''), w)
             else if \<not> Number_isInteger amount \<or> le_zero amount
             then ((400, Json_error ''amount_cents must be a positive integer''), w)
             else (case select_idempotency_key idem ''/v1/payment_intents'' w of
                     row # _ \<Rightarrow> ((200, Json_intent (response_json row)), w)
                   | [] \<Rightarrow> create_remote e idem (integer_value amount) cur metadata w))"

section \<open>Examples\<close>

definition ex_event :: stripe_event where
  "ex_event =
     \<lparr>ev_id = ''evt_1'', ev_type = ''payment_intent.succeeded'',
      ev_object = \<lparr>pi_id = ''pi_X'', pi_amount_received = 2500, pi_currency = ''usd'',
                   pi_customer = None, pi_client_secret = ''cs_1'',
                   pi_status = ''succeeded''\<rparr>\<rparr>"

definition ex_env :: env where
  "ex_env =
     \<lparr>constructEvent = (\<lambda>b s. if s = Some ''t=1,v1=ok'' then Inr ex_event
                               else Inl ''No signatures found matching the expected signature for payload''),
      sha256_hex = (\<lambda>b. ''h1''),
      randomUUID = ''u1'',
      paymentIntents_create = (\<lambda>c. Inl ''connection error'')\<rparr>"

definition ex_escrow :: account where
  "ex_escrow = \<lparr>account_id = ''acc_escrow'', account_name = ''Platform Escrow'',
                account_type = ''platform_escrow''\<rparr>"

definition ex_world :: world where
  "ex_world =
     \<lparr>accounts = [ex_escrow], transactions = [], payment_intents = [],
      idempotency_keys = [], webhook_events = [], stripe_requests = []\<rparr>"

definition ex_delivery :: webhook_request where
  "ex_delivery = \<lparr>raw_body = ''{}'', stripe_signature = Some ''t=1,v1=ok''\<rparr>"

definition ex_forged :: webhook_request where
  "ex_forged = \<lparr>raw_body = ''{}'', stripe_signature = Some ''t=1,v1=bad''\<rparr>"

definition ex_intent :: stripe_payment_intent where
  "ex_intent =
     \<lparr>pi_id = ''pi_X'', pi_amount_received = 0, pi_currency = ''usd'', pi_customer = None,
      pi_client_secret = ''cs_1'', pi_status = ''requires_action''\<rparr>"

definition ex_env_up :: env where
  "ex_env_up = ex_env\<lparr>randomUUID := ''u2'', paymentIntents_create := (\<lambda>c. Inr ex_intent)\<rparr>"

definition ex_request :: intent_request where
  "ex_request =
     \<lparr>header_idempotency_key = Some ''k1'', body_amount_cents = JNumber 2500,
      body_currency = Some ''usd'', body_metadata = None\<rparr>"

definition ex_response :: intent_json where
  "ex_response = \<lparr>json_id = ''pi_X'', json_client_secret = ''cs_1'',
                  json_status = ''requires_action''\<rparr>"

definition ex_event_zero :: stripe_event where
  "ex_event_zero = ex_event\<lparr>ev_object := (ev_object ex_event)\<lparr>pi_amount_received := 0\<rparr>\<rparr>"

definition ex_env_zero :: env where
  "ex_env_zero = ex_env\<lparr>constructEvent := (\<lambda>b s. Inr ex_event_zero)\<rparr>"

definition ex_event_refund :: stripe_event where
  "ex_event_refund = ex_event\<lparr>ev_id := ''evt_9'', ev_type := ''charge.refunded''\<rparr>"

definition ex_env_refund :: env where
  "ex_env_refund = ex_env\<lparr>constructEvent := (\<lambda>b s. Inr ex_event_refund)\<rparr>"

definition ex_world_no_escrow :: world where
  "ex_world_no_escrow = ex_world\<lparr>accounts := []\<rparr>"

definition ex_key_row :: idempotency_key where
  "ex_key_row = \<lparr>idem_key = ''k1'', endpoint = ''/v1/payment_intents'',
                 response_json = ex_response\<rparr>"

definition ex_key_row_other :: idempotency_key where
  "ex_key_row_other = ex_key_row\<lparr>response_json := ex_response\<lparr>json_id := ''pi_Y''\<rparr>\<rparr>"

definition ex_world_stored :: world where
  "ex_world_stored = ex_world\<lparr>idempotency_keys := [ex_key_row]\<rparr>"

definition ex_request_other :: intent_request where
  "ex_request_other = ex_request\<lparr>body_amount_cents := JNumber 9900, body_currency := Some ''eur''\<rparr>"

definition ex_request_no_key :: intent_request where
  "ex_request_no_key = ex_request\<lparr>header_idempotency_key := None\<rparr>"

definition ex_request_negative :: intent_request where
  "ex_request_negative = ex_request\<lparr>body_amount_cents := JNumber (- 5)\<rparr>"

definition ex_request_fraction :: intent_request where
  "ex_request_fraction = ex_request\<lparr>body_amount_cents := JNumber (5 / 2)\<rparr>"

definition ex_transaction_zero :: transaction where
  "ex_transaction_zero =
     \<lparr>debit_account = ''acc_escrow'', credit_account = ''acc_escrow'', tx_amount_cents = 0,
      tx_currency = ''usd'', external_ref = ''pi_X''\<rparr>"

definition ex_transaction_stranger :: transaction where
  "ex_transaction_stranger = ex_transaction_zero\<lparr>debit_account := ''nobody'', tx_amount_cents := 2500\<rparr>"

definition ex_call :: create_call where
  "ex_call = \<lparr>call_amount = 2500, call_currency = ''usd'', call_metadata = [],
              call_idempotencyKey = ''k1''\<rparr>"

section \<open>The statements, one at a time\<close>

lemma accounts_upsert [simp]:
  "accounts (upsert_payment_intent_succeeded pid amt cur w) = accounts w"
  "transactions (upsert_payment_intent_succeeded pid amt cur w) = transactions w"
  "webhook_events (upsert_payment_intent_succeeded pid amt cur w) = webhook_events w"
  "idempotency_keys (upsert_payment_intent_succeeded pid amt cur w) = idempotency_keys w"
  "stripe_requests (upsert_payment_intent_succeeded pid amt cur w) = stripe_requests w"
  by (simp_all add: upsert_payment_intent_succeeded_def)

lemma fields_insert_customer_account [simp]:
  "transactions (insert_customer_account aid nm w) = transactions w"
  "webhook_events (insert_customer_account aid nm w) = webhook_events w"
  "payment_intents (insert_customer_account aid nm w) = payment_intents w"
  "idempotency_keys (insert_customer_account aid nm w) = idempotency_keys w"
  "stripe_requests (insert_customer_account aid nm w) = stripe_requests w"
  by (simp_all add: insert_customer_account_def)

lemma insert_transaction_accepted:
  assumes "0 < tx_amount_cents t"
    and "debit_account t \<in> account_id ` set (accounts w)"
    and "credit_account t \<in> account_id ` set (accounts w)"
  shows "insert_transaction t w = Inr (w\<lparr>transactions := transactions w @ [t]\<rparr>)"
  using assms by (simp add: insert_transaction_def)

lemma fields_insert_payment_intent [simp]:
  "idempotency_keys (insert_payment_intent p w) = idempotency_keys w"
  "stripe_requests (insert_payment_intent p w) = stripe_requests w"
  "accounts (insert_payment_intent p w) = accounts w"
  "transactions (insert_payment_intent p w) = transactions w"
  "webhook_events (insert_payment_intent p w) = webhook_events w"
  by (simp_all add: insert_payment_intent_def)

lemma select_escrow_upsert [simp]:
  "select_escrow (upsert_payment_intent_succeeded pid amt cur w) = select_escrow w"
  by (simp add: select_escrow_def)

lemma account_inserted:
  "aid \<in> account_id ` set (accounts (insert_customer_account aid nm w))"
  by (auto simp: insert_customer_account_def filter_empty_conv)

lemma accounts_kept:
  "set (accounts w) \<subseteq> set (accounts (insert_customer_account aid nm w))"
  by (auto simp: insert_customer_account_def)

lemma select_escrow_member:
  "select_escrow w = a # as \<Longrightarrow> a \<in> set (accounts w) \<and> account_type a = ''platform_escrow''"
proof -
  assume h: "select_escrow w = a # as"
  then have "a \<in> set (take 1 (filter (\<lambda>a. account_type a = ''platform_escrow'') (accounts w)))"
    by (simp add: select_escrow_def)
  then have "a \<in> set (filter (\<lambda>a. account_type a = ''platform_escrow'') (accounts w))"
    by (rule in_set_takeD)
  then show ?thesis by simp
qed

lemma upsert_status:
  "\<exists>p \<in> set (payment_intents (upsert_payment_intent_succeeded pid amt cur w)).
     provider_id p = pid \<and> status p = ''succeeded''"
proof (cases "filter (\<lambda>r. provider_id r = pid) (payment_intents w) = []")
  case True
  then show ?thesis by (simp add: upsert_payment_intent_succeeded_def)
next
  case False
  then obtain p where "p \<in> set (payment_intents w)" "provider_id p = pid"
    by (auto simp: filter_empty_conv)
  then have "p\<lparr>status := ''succeeded''\<rparr> \<in>
      set (payment_intents (upsert_payment_intent_succeeded pid amt cur w))"
    using False by (force simp: upsert_payment_intent_succeeded_def)
  with \<open>provider_id p = pid\<close> show ?thesis
    by (intro bexI [where x = "p\<lparr>status := ''succeeded''\<rparr>"]) simp_all
qed

lemma first_seen:
  "eid \<notin> event_id ` set (webhook_events w) \<Longrightarrow> filter (\<lambda>x. event_id x = eid) (webhook_events w) = []"
  by (auto simp: filter_empty_conv)

lemma select_after_insert:
  assumes "insert_idempotency_key r2 w = Inr w'"
    and "select_idempotency_key k ep w \<noteq> []"
  shows "select_idempotency_key k ep w' = select_idempotency_key k ep w"
proof -
  from assms(1) have free: "select_idempotency_key (idem_key r2) (endpoint r2) w = []"
    and w': "w' = w\<lparr>idempotency_keys := idempotency_keys w @ [r2]\<rparr>"
    by (auto simp: insert_idempotency_key_def split: if_splits)
  from free assms(2) have "\<not> (idem_key r2 = k \<and> endpoint r2 = ep)" by auto
  then show ?thesis by (simp add: w' select_idempotency_key_def)
qed

lemma length_insert_payment_intent:
  "length (payment_intents (insert_payment_intent p w)) \<le> length (payment_intents w) + 1"
  by (simp add: insert_payment_intent_def)

section \<open>The webhook handler, case by case\<close>

lemma escrow_kept:
  assumes "select_escrow w = a # as"
  shows "account_id a \<in> account_id ` set (accounts (insert_customer_account aid nm
           (upsert_payment_intent_succeeded pid amt cur w)))"
proof -
  have "a \<in> set (accounts w)" using select_escrow_member [OF assms] by simp
  then have "a \<in> set (accounts (insert_customer_account aid nm
           (upsert_payment_intent_succeeded pid amt cur w)))"
    using accounts_kept [of "upsert_payment_intent_succeeded pid amt cur w" aid nm] by auto
  then show ?thesis by (rule imageI)
qed

lemma payment_succeeded_escrow:
  assumes "select_escrow w = a # as" and "0 < pi_amount_received obj"
  shows "payment_succeeded e obj w =
     Inr ((insert_customer_account (randomUUID e)
            (''Customer '' @ (case pi_customer obj of None \<Rightarrow> ''anon'' | Some c \<Rightarrow> c))
            (upsert_payment_intent_succeeded (pi_id obj) (pi_amount_received obj)
               (pi_currency obj) w))
          \<lparr>transactions := transactions w @
             [\<lparr>debit_account = randomUUID e, credit_account = account_id a,
               tx_amount_cents = pi_amount_received obj, tx_currency = pi_currency obj,
               external_ref = pi_id obj\<rparr>]\<rparr>)"
proof -
  let ?w2 = "insert_customer_account (randomUUID e)
            (''Customer '' @ (case pi_customer obj of None \<Rightarrow> ''anon'' | Some c \<Rightarrow> c))
            (upsert_payment_intent_succeeded (pi_id obj) (pi_amount_received obj)
               (pi_currency obj) w)"
  let ?t = "\<lparr>debit_account = randomUUID e, credit_account = account_id a,
               tx_amount_cents = pi_amount_received obj, tx_currency = pi_currency obj,
               external_ref = pi_id obj\<rparr>"
  have d: "debit_account ?t \<in> account_id ` set (accounts ?w2)"
    using account_inserted [of "randomUUID e"] by simp
  have c: "credit_account ?t \<in> account_id ` set (accounts ?w2)"
    using escrow_kept [OF assms(1)] by simp
  have "insert_transaction ?t ?w2 = Inr (?w2\<lparr>transactions := transactions ?w2 @ [?t]\<rparr>)"
    using assms(2) d c by (intro insert_transaction_accepted) simp_all
  then show ?thesis using assms(1) by (simp add: payment_succeeded_def Let_def)
qed

lemma payment_succeeded_refused:
  assumes "select_escrow w = a # as" and "pi_amount_received obj \<le> 0"
  shows "payment_succeeded e obj w =
     Inl (InvalidAmount,
          insert_customer_account (randomUUID e)
            (''Customer '' @ (case pi_customer obj of None \<Rightarrow> ''anon'' | Some c \<Rightarrow> c))
            (upsert_payment_intent_succeeded (pi_id obj) (pi_amount_received obj)
               (pi_currency obj) w))"
  using assms by (simp add: payment_succeeded_def insert_transaction_def Let_def)

lemma payment_succeeded_no_escrow:
  assumes "select_escrow w = []"
  shows "payment_succeeded e obj w =
     Inl (TypeError_undefined,
          insert_customer_account (randomUUID e)
            (''Customer '' @ (case pi_customer obj of None \<Rightarrow> ''anon'' | Some c \<Rightarrow> c))
            (upsert_payment_intent_succeeded (pi_id obj) (pi_amount_received obj)
               (pi_currency obj) w))"
  using assms by (simp add: payment_succeeded_def Let_def)

lemma webhook_handle_other_kind:
  assumes "ev_type ev \<noteq> ''payment_intent.succeeded''"
    and "ev_id ev \<notin> event_id ` set (webhook_events w)"
  shows "webhook_handle e ev h w =
           ((200, Json_ok),
            w\<lparr>webhook_events := webhook_events w @
                 [\<lparr>event_id = ev_id ev, event_type = ev_type ev, payload_hash = h\<rparr>]\<rparr>)"
  using assms first_seen [of "ev_id ev" w]
  by (simp add: webhook_handle_def insert_webhook_event_def)

lemma webhook_handle_succeeded:
  assumes "ev_type ev = ''payment_intent.succeeded''"
    and "ev_id ev \<notin> event_id ` set (webhook_events w)"
    and "select_escrow w = a # as"
    and "0 < pi_amount_received (ev_object ev)"
  shows "webhook_handle e ev h w =
     ((200, Json_ok),
      (insert_customer_account (randomUUID e)
         (''Customer '' @ (case pi_customer (ev_object ev) of None \<Rightarrow> ''anon'' | Some c \<Rightarrow> c))
         (upsert_payment_intent_succeeded (pi_id (ev_object ev))
            (pi_amount_received (ev_object ev)) (pi_currency (ev_object ev)) w))
      \<lparr>transactions := transactions w @
          [\<lparr>debit_account = randomUUID e, credit_account = account_id a,
            tx_amount_cents = pi_amount_received (ev_object ev),
            tx_currency = pi_currency (ev_object ev), external_ref = pi_id (ev_object ev)\<rparr>],
        webhook_events := webhook_events w @
          [\<lparr>event_id = ev_id ev, event_type = ev_type ev, payload_hash = h\<rparr>]\<rparr>)"
  using assms(1) first_seen [OF assms(2)]
    payment_succeeded_escrow [OF assms(3) assms(4), of e]
  by (simp add: webhook_handle_def insert_webhook_event_def)

lemma webhook_handle_refused:
  assumes "ev_type ev = ''payment_intent.succeeded''"
    and "select_escrow w = a # as"
    and "pi_amount_received (ev_object ev) \<le> 0"
  shows "webhook_handle e ev h w =
     ((400, Text_webhook_error InvalidAmount),
      insert_customer_account (randomUUID e)
         (''Customer '' @ (case pi_customer (ev_object ev) of None \<Rightarrow> ''anon'' | Some c \<Rightarrow> c))
         (upsert_payment_intent_succeeded (pi_id (ev_object ev))
            (pi_amount_received (ev_object ev)) (pi_currency (ev_object ev)) w))"
  using assms(1) payment_succeeded_refused [OF assms(2) assms(3), of e]
  by (simp add: webhook_handle_def)

lemma webhook_handle_transactions:
  "transactions (snd (webhook_handle e ev h w)) = transactions w \<or>
   (\<exists>a. select_escrow w = [a] \<and> ev_type ev = ''payment_intent.succeeded'' \<and>
        0 < pi_amount_received (ev_object ev) \<and>
        transactions (snd (webhook_handle e ev h w)) = transactions w @
          [\<lparr>debit_account = randomUUID e, credit_account = account_id a,
            tx_amount_cents = pi_amount_received (ev_object ev),
            tx_currency = pi_currency (ev_object ev),
            external_ref = pi_id (ev_object ev)\<rparr>] \<and>
        randomUUID e \<in> account_id ` set (accounts (snd (webhook_handle e ev h w))) \<and>
        a \<in> set (accounts (snd (webhook_handle e ev h w))))"
proof (cases "ev_type ev = ''payment_intent.succeeded''")
  case False
  then show ?thesis
    by (simp add: webhook_handle_def insert_webhook_event_def)
next
  case True
  show ?thesis
  proof (cases "select_escrow w")
    case Nil
    then show ?thesis
      using True payment_succeeded_no_escrow [of w e "ev_object ev"]
      by (simp add: webhook_handle_def)
  next
    case (Cons a as)
    then have one: "select_escrow w = [a]"
      by (cases "filter (\<lambda>a. account_type a = ''platform_escrow'') (accounts w)")
         (simp_all add: select_escrow_def)
    show ?thesis
    proof (cases "0 < pi_amount_received (ev_object ev)")
      case False
      then have "pi_amount_received (ev_object ev) \<le> 0" by simp
      from webhook_handle_refused [OF True Cons this, of e h]
      show ?thesis by simp
    next
      case pos: True
      let ?nm = "''Customer '' @ (case pi_customer (ev_object ev) of None \<Rightarrow> ''anon'' | Some c \<Rightarrow> c)"
      let ?w1 = "upsert_payment_intent_succeeded (pi_id (ev_object ev))
               (pi_amount_received (ev_object ev)) (pi_currency (ev_object ev)) w"
      let ?w2 = "insert_customer_account (randomUUID e) ?nm ?w1"
      have tx: "transactions (snd (webhook_handle e ev h w)) = transactions w @
          [\<lparr>debit_account = randomUUID e, credit_account = account_id a,
            tx_amount_cents = pi_amount_received (ev_object ev),
            tx_currency = pi_currency (ev_object ev),
            external_ref = pi_id (ev_object ev)\<rparr>]"
        and accs: "accounts (snd (webhook_handle e ev h w)) = accounts ?w2"
        using True payment_succeeded_escrow [OF Cons pos, of e]
        by (simp_all add: webhook_handle_def insert_webhook_event_def)
      have "a \<in> set (accounts w)" using select_escrow_member [OF Cons] by simp
      then have "a \<in> set (accounts ?w2)"
        using accounts_kept [of ?w1 "randomUUID e" ?nm] by auto
      moreover have "randomUUID e \<in> account_id ` set (accounts ?w2)"
        by (rule account_inserted)
      ultimately show ?thesis using one True pos tx accs by simp
    qed
  qed
qed

lemma webhook_handle_accounts:
  "set (accounts w) \<subseteq> set (accounts (snd (webhook_handle e ev h w)))"
proof (cases "ev_type ev = ''payment_intent.succeeded''")
  case False
  then show ?thesis
    by (simp add: webhook_handle_def insert_webhook_event_def)
next
  case True
  let ?nm = "''Customer '' @ (case pi_customer (ev_object ev) of None \<Rightarrow> ''anon'' | Some c \<Rightarrow> c)"
  let ?w1 = "upsert_payment_intent_succeeded (pi_id (ev_object ev))
               (pi_amount_received (ev_object ev)) (pi_currency (ev_object ev)) w"
  have "accounts (snd (webhook_handle e ev h w)) =
          accounts (insert_customer_account (randomUUID e) ?nm ?w1)"
  proof (cases "select_escrow w")
    case Nil
    then show ?thesis
      using True payment_succeeded_no_escrow [of w e "ev_object ev"]
      by (simp add: webhook_handle_def)
  next
    case (Cons a as)
    show ?thesis
    proof (cases "0 < pi_amount_received (ev_object ev)")
      case False
      then have "pi_amount_received (ev_object ev) \<le> 0" by simp
      from webhook_handle_refused [OF True Cons this, of e h]
      show ?thesis by simp
    next
      case pos: True
      then show ?thesis
        using True payment_succeeded_escrow [OF Cons pos, of e]
        by (simp add: webhook_handle_def insert_webhook_event_def)
    qed
  qed
  then show ?thesis using accounts_kept [of ?w1 "randomUUID e" ?nm] by simp
qed

lemma webhook_stripe_cases:
  "webhook_stripe e r w = (fst (webhook_stripe e r w), w) \<or>
   (\<exists>ev. constructEvent e (raw_body r) (stripe_signature r) = Inr ev \<and>
         webhook_stripe e r w = webhook_handle e ev (sha256_hex e (raw_body r)) w)"
  by (cases "constructEvent e (raw_body r) (stripe_signature r)")
     (simp_all add: webhook_stripe_def webhook_dedup_def)

lemma webhook_stripe_recorded:
  assumes "constructEvent e (raw_body r) (stripe_signature r) = Inr ev"
    and "ev_id ev \<in> event_id ` set (webhook_events w)"
  shows "webhook_stripe e r w = ((200, Json_ok_deduped), w)"
proof -
  from assms(2) have "select_webhook_event (ev_id ev) w \<noteq> []"
    by (auto simp: select_webhook_event_def filter_empty_conv)
  with assms(1) show ?thesis
    by (simp add: webhook_stripe_def webhook_dedup_def)
qed

lemma webhook_stripe_first_seen:
  assumes "constructEvent e (raw_body r) (stripe_signature r) = Inr ev"
    and "ev_id ev \<notin> event_id ` set (webhook_events w)"
  shows "webhook_stripe e r w = webhook_handle e ev (sha256_hex e (raw_body r)) w"
  using assms first_seen [of "ev_id ev" w]
  by (simp add: webhook_stripe_def webhook_dedup_def select_webhook_event_def)

lemma redeliver_recorded:
  assumes "constructEvent e (raw_body r) (stripe_signature r) = Inr ev"
    and "ev_id ev \<in> event_id ` set (webhook_events w)"
  shows "redeliver e r us w = (replicate (length us) (200, Json_ok_deduped), w)"
proof (induction us)
  case Nil
  show ?case by simp
next
  case (Cons u us)
  have "constructEvent (e\<lparr>randomUUID := u\<rparr>) (raw_body r) (stripe_signature r) = Inr ev"
    using assms(1) by simp
  then have "webhook_stripe (e\<lparr>randomUUID := u\<rparr>) r w = ((200, Json_ok_deduped), w)"
    using assms(2) by (rule webhook_stripe_recorded)
  with Cons.IH show ?case by simp
qed

section \<open>The create-intent handler, case by case\<close>

lemma create_hit:
  assumes "header_idempotency_key r = Some k" and "k \<noteq> []"
    and "Number_isInteger (body_amount_cents r)" and "\<not> le_zero (body_amount_cents r)"
    and "select_idempotency_key k ''/v1/payment_intents'' w = row # rest"
  shows "create_payment_intent e r w = ((200, Json_intent (response_json row)), w)"
  using assms by (simp add: create_payment_intent_def)

lemma create_remote_200:
  assumes "fst (fst (create_remote e k amt cur md w)) = 200"
    and "select_idempotency_key k ''/v1/payment_intents'' w = []"
  shows "\<exists>row. fst (create_remote e k amt cur md w) = (200, Json_intent (response_json row)) \<and>
           select_idempotency_key k ''/v1/payment_intents'' (snd (create_remote e k amt cur md w)) = [row] \<and>
           length (stripe_requests (snd (create_remote e k amt cur md w))) = length (stripe_requests w) + 1 \<and>
           length (payment_intents (snd (create_remote e k amt cur md w))) \<le> length (payment_intents w) + 1"
proof -
  let ?call = "\<lparr>call_amount = amt, call_currency = cur, call_metadata = md,
                  call_idempotencyKey = k\<rparr>"
  let ?w1 = "w\<lparr>stripe_requests := stripe_requests w @ [?call]\<rparr>"
  show ?thesis
  proof (cases "paymentIntents_create e ?call")
    case (Inl msg)
    with assms(1) show ?thesis by (simp add: create_remote_def)
  next
    case (Inr obj)
    let ?w2 = "insert_payment_intent
                 \<lparr>provider = ''stripe'', provider_id = pi_id obj, amount_cents = amt,
                  currency = cur, status = pi_status obj\<rparr> ?w1"
    let ?row = "\<lparr>idem_key = k, endpoint = ''/v1/payment_intents'',
                 response_json = \<lparr>json_id = pi_id obj, json_client_secret = pi_client_secret obj,
                              json_status = pi_status obj\<rparr>\<rparr>"
    have free: "select_idempotency_key k ''/v1/payment_intents'' ?w2 = []"
      using assms(2) by (simp add: select_idempotency_key_def)
    have run: "create_remote e k amt cur md w =
        ((200, Json_intent (response_json ?row)), ?w2\<lparr>idempotency_keys := idempotency_keys ?w2 @ [?row]\<rparr>)"
      using Inr free by (simp add: create_remote_def insert_idempotency_key_def Let_def)
    have sel: "select_idempotency_key k ''/v1/payment_intents''
           (?w2\<lparr>idempotency_keys := idempotency_keys ?w2 @ [?row]\<rparr>) = [?row]"
      using free by (simp add: select_idempotency_key_def)
    have len: "length (payment_intents ?w2) \<le> length (payment_intents w) + 1"
      using length_insert_payment_intent [of _ ?w1] by simp
    show ?thesis
      unfolding run using sel len by (intro exI [where x = ?row]) simp
  qed
qed

lemma create_200:
  assumes "fst (fst (create_payment_intent e r w)) = 200"
  shows "\<exists>k row rest. header_idempotency_key r = Some k \<and> k \<noteq> [] \<and>
           Number_isInteger (body_amount_cents r) \<and> \<not> le_zero (body_amount_cents r) \<and>
           fst (create_payment_intent e r w) = (200, Json_intent (response_json row)) \<and>
           select_idempotency_key k ''/v1/payment_intents'' (snd (create_payment_intent e r w)) = row # rest \<and>
           length (stripe_requests (snd (create_payment_intent e r w))) \<le> length (stripe_requests w) + 1 \<and>
           length (payment_intents (snd (create_payment_intent e r w))) \<le> length (payment_intents w) + 1"
proof (cases "header_idempotency_key r")
  case None
  with assms show ?thesis by (simp add: create_payment_intent_def)
next
  case (Some k)
  with assms have k: "k \<noteq> []" and int: "Number_isInteger (body_amount_cents r)"
    and pos: "\<not> le_zero (body_amount_cents r)"
    by (auto simp: create_payment_intent_def Let_def split: if_splits)
  show ?thesis
  proof (cases "select_idempotency_key k ''/v1/payment_intents'' w")
    case (Cons row rest)
    have "create_payment_intent e r w = ((200, Json_intent (response_json row)), w)"
      using Some k int pos Cons by (rule create_hit)
    with Some k int pos Cons show ?thesis by simp
  next
    case Nil
    let ?cur = "case body_currency r of None \<Rightarrow> ''usd'' | Some c \<Rightarrow> c"
    let ?md = "case body_metadata r of None \<Rightarrow> [] | Some m \<Rightarrow> m"
    have eq: "create_payment_intent e r w =
        create_remote e k (integer_value (body_amount_cents r)) ?cur ?md w"
      using Some k int pos Nil by (simp add: create_payment_intent_def)
    from create_remote_200 [of e k "integer_value (body_amount_cents r)" ?cur ?md w]
      assms Nil
    obtain row where
      "fst (create_payment_intent e r w) = (200, Json_intent (response_json row))"
      "select_idempotency_key k ''/v1/payment_intents'' (snd (create_payment_intent e r w)) = [row]"
      "length (stripe_requests (snd (create_payment_intent e r w))) = length (stripe_requests w) + 1"
      "length (payment_intents (snd (create_payment_intent e r w))) \<le> length (payment_intents w) + 1"
      unfolding eq by blast
    with Some k int pos show ?thesis by simp
  qed
qed

lemma create_payment_intent_ledger:
  "accounts (snd (create_payment_intent e r w)) = accounts w \<and>
   transactions (snd (create_payment_intent e r w)) = transactions w"
  by (simp add: create_payment_intent_def create_remote_def insert_payment_intent_def
      insert_idempotency_key_def Let_def split: option.split list.split sum.split)

section \<open>Redelivery of a webhook\<close>

text \<open>
  C1, as the code has it. The de-duplication query, the posting and the recording of the
  event are separate statements, each committed on its own; what holds is this. A verified
  payload whose event id is not yet recorded, delivered one or more times, each delivery
  ending before the next begins, where a payment success reports an amount greater than
  zero and finds a platform-escrow account: the first delivery is answered \<open>{ok: true}\<close>, every later
  one \<open>{ok: true, deduped: true}\<close>; the state after all deliveries is the state after the
  first; exactly one record of the event id exists; and exactly one transaction has been
  added when the event is a payment success, none for any other kind of event.
\<close>

theorem sequential_redelivery:
  assumes verified: "constructEvent e (raw_body r) (stripe_signature r) = Inr ev"
    and fresh: "ev_id ev \<notin> event_id ` set (webhook_events w)"
    and escrow: "ev_type ev = ''payment_intent.succeeded'' \<longrightarrow> select_escrow w = [a]"
    and positive: "ev_type ev = ''payment_intent.succeeded'' \<longrightarrow>
                     0 < pi_amount_received (ev_object ev)"
  shows "fst (redeliver e r (u # us) w) =
           (200, Json_ok) # replicate (length us) (200, Json_ok_deduped) \<and>
         snd (redeliver e r (u # us) w) = snd (webhook_stripe (e\<lparr>randomUUID := u\<rparr>) r w) \<and>
         select_webhook_event (ev_id ev) (snd (redeliver e r (u # us) w)) =
           [\<lparr>event_id = ev_id ev, event_type = ev_type ev,
             payload_hash = sha256_hex e (raw_body r)\<rparr>] \<and>
         transactions (snd (redeliver e r (u # us) w)) =
           transactions w @
           (if ev_type ev = ''payment_intent.succeeded''
            then [\<lparr>debit_account = u, credit_account = account_id a,
                   tx_amount_cents = pi_amount_received (ev_object ev),
                   tx_currency = pi_currency (ev_object ev),
                   external_ref = pi_id (ev_object ev)\<rparr>]
            else [])"
proof -
  let ?e = "e\<lparr>randomUUID := u\<rparr>"
  let ?row = "\<lparr>event_id = ev_id ev, event_type = ev_type ev,
             payload_hash = sha256_hex e (raw_body r)\<rparr>"
  let ?w1 = "snd (webhook_stripe ?e r w)"
  have verified': "constructEvent ?e (raw_body r) (stripe_signature r) = Inr ev"
    using verified by simp
  have first: "webhook_stripe ?e r w = webhook_handle ?e ev (sha256_hex e (raw_body r)) w"
    using webhook_stripe_first_seen [OF verified' fresh] by simp
  have one: "fst (webhook_stripe ?e r w) = (200, Json_ok) \<and>
        webhook_events ?w1 = webhook_events w @ [?row] \<and>
        transactions ?w1 = transactions w @
           (if ev_type ev = ''payment_intent.succeeded''
            then [\<lparr>debit_account = u, credit_account = account_id a,
                   tx_amount_cents = pi_amount_received (ev_object ev),
                   tx_currency = pi_currency (ev_object ev),
                   external_ref = pi_id (ev_object ev)\<rparr>]
            else [])"
  proof (cases "ev_type ev = ''payment_intent.succeeded''")
    case True
    with escrow positive have "select_escrow w = [a]"
      and "0 < pi_amount_received (ev_object ev)" by simp_all
    from webhook_handle_succeeded [OF True fresh this, of ?e "sha256_hex e (raw_body r)"]
    show ?thesis using True unfolding first by simp
  next
    case False
    from webhook_handle_other_kind [OF False fresh, of ?e "sha256_hex e (raw_body r)"]
    show ?thesis using False unfolding first by simp
  qed
  then have recorded: "ev_id ev \<in> event_id ` set (webhook_events ?w1)"
    by (simp add: image_iff)
  have rest: "redeliver e r us ?w1 = (replicate (length us) (200, Json_ok_deduped), ?w1)"
    using verified recorded by (rule redeliver_recorded)
  have all: "redeliver e r (u # us) w =
      (fst (webhook_stripe ?e r w) # replicate (length us) (200, Json_ok_deduped), ?w1)"
    using rest by (simp add: case_prod_beta)
  have sel: "select_webhook_event (ev_id ev) ?w1 = [?row]"
    using one first_seen [OF fresh] by (simp add: select_webhook_event_def)
  show ?thesis using one sel unfolding all by simp
qed

theorem sequential_redelivery_witness:
  "constructEvent ex_env (raw_body ex_delivery) (stripe_signature ex_delivery) = Inr ex_event \<and>
   ev_id ex_event \<notin> event_id ` set (webhook_events ex_world) \<and>
   select_escrow ex_world = [ex_escrow] \<and>
   0 < pi_amount_received (ev_object ex_event) \<and>
   fst (redeliver ex_env ex_delivery [''u1'', ''u2'', ''u3''] ex_world) =
     [(200, Json_ok), (200, Json_ok_deduped), (200, Json_ok_deduped)] \<and>
   transactions (snd (redeliver ex_env ex_delivery [''u1'', ''u2'', ''u3''] ex_world)) =
     [\<lparr>debit_account = ''u1'', credit_account = ''acc_escrow'', tx_amount_cents = 2500,
       tx_currency = ''usd'', external_ref = ''pi_X''\<rparr>] \<and>
   select_webhook_event ''evt_1''
       (snd (redeliver ex_env ex_delivery [''u1'', ''u2'', ''u3''] ex_world)) =
     [\<lparr>event_id = ''evt_1'', event_type = ''payment_intent.succeeded'',
       payload_hash = ''h1''\<rparr>]"
proof -
  have h1: "constructEvent ex_env (raw_body ex_delivery) (stripe_signature ex_delivery) =
      Inr ex_event"
    by (simp add: ex_env_def ex_delivery_def)
  have h2: "ev_id ex_event \<notin> event_id ` set (webhook_events ex_world)"
    by (simp add: ex_world_def)
  have h3: "select_escrow ex_world = [ex_escrow]"
    by (simp add: select_escrow_def ex_world_def ex_escrow_def)
  then have h3': "ev_type ex_event = ''payment_intent.succeeded'' \<longrightarrow>
      select_escrow ex_world = [ex_escrow]"
    by simp
  have h4: "0 < pi_amount_received (ev_object ex_event)"
    by (simp add: ex_event_def)
  then have h4': "ev_type ex_event = ''payment_intent.succeeded'' \<longrightarrow>
      0 < pi_amount_received (ev_object ex_event)"
    by simp
  note c = sequential_redelivery [OF h1 h2 h3' h4', of "''u1''" "[''u2'', ''u3'']"]
  from c [THEN conjunct1]
  have "fst (redeliver ex_env ex_delivery [''u1'', ''u2'', ''u3''] ex_world) =
     [(200, Json_ok), (200, Json_ok_deduped), (200, Json_ok_deduped)]"
    by (simp del: redeliver.simps)
  moreover from c [THEN conjunct2, THEN conjunct2, THEN conjunct2]
  have "transactions (snd (redeliver ex_env ex_delivery [''u1'', ''u2'', ''u3''] ex_world)) =
     [\<lparr>debit_account = ''u1'', credit_account = ''acc_escrow'', tx_amount_cents = 2500,
       tx_currency = ''usd'', external_ref = ''pi_X''\<rparr>]"
    by (simp add: ex_event_def ex_escrow_def ex_world_def del: redeliver.simps)
  moreover from c [THEN conjunct2, THEN conjunct2, THEN conjunct1]
  have "select_webhook_event ''evt_1''
       (snd (redeliver ex_env ex_delivery [''u1'', ''u2'', ''u3''] ex_world)) =
     [\<lparr>event_id = ''evt_1'', event_type = ''payment_intent.succeeded'',
       payload_hash = ''h1''\<rparr>]"
    by (simp add: ex_event_def ex_env_def del: redeliver.simps)
  ultimately show ?thesis using h1 h2 h3 h4 by blast
qed

text \<open>
  The claim as stated fails. Two deliveries of the same verified payment-success event
  race: both de-duplication queries find no record, both requests post, and the second
  recording meets the uniqueness constraint. Two transactions stand for one event id, and
  the second delivery is answered with an error.
\<close>

theorem concurrent_delivery_posts_twice:
  "fst (webhook_interleaved ex_env ex_env_up ex_delivery ex_world) =
     ((200, Json_ok), (400, Text_webhook_error (Unique_violation ''webhook_events''))) \<and>
   map external_ref (transactions (snd (webhook_interleaved ex_env ex_env_up ex_delivery ex_world))) =
     [''pi_X'', ''pi_X''] \<and>
   map event_id (webhook_events (snd (webhook_interleaved ex_env ex_env_up ex_delivery ex_world))) =
     [''evt_1'']"
  by (simp add: webhook_interleaved_def webhook_dedup_def webhook_handle_def
      payment_succeeded_def select_webhook_event_def upsert_payment_intent_succeeded_def
      select_escrow_def insert_customer_account_def insert_transaction_def
      insert_webhook_event_def ex_env_def ex_env_up_def ex_event_def ex_delivery_def
      ex_world_def ex_escrow_def Let_def)

text \<open>
  Three more cases, one delivery after the other. An event of another kind is recorded
  and posts nothing. With no platform-escrow account a payment-success event is never
  recorded: every delivery is answered with an error, posts nothing, and leaves the mirror
  row and one more customer account behind. The same happens to a payment success that
  reports the amount 0, which the ledger store refuses.
\<close>

lemma other_kind_posts_nothing:
  "fst (redeliver ex_env_refund ex_delivery [''u1'', ''u2''] ex_world) =
     [(200, Json_ok), (200, Json_ok_deduped)] \<and>
   transactions (snd (redeliver ex_env_refund ex_delivery [''u1'', ''u2''] ex_world)) = [] \<and>
   map event_id (webhook_events (snd (redeliver ex_env_refund ex_delivery [''u1'', ''u2''] ex_world))) =
     [''evt_9'']"
  by (simp add: webhook_stripe_def webhook_dedup_def webhook_handle_def
      select_webhook_event_def insert_webhook_event_def ex_env_refund_def ex_env_def
      ex_event_refund_def ex_event_def ex_delivery_def ex_world_def Let_def)

lemma no_escrow_never_recorded:
  "fst (redeliver ex_env ex_delivery [''u1'', ''u2''] ex_world_no_escrow) =
     [(400, Text_webhook_error TypeError_undefined),
      (400, Text_webhook_error TypeError_undefined)] \<and>
   transactions (snd (redeliver ex_env ex_delivery [''u1'', ''u2''] ex_world_no_escrow)) = [] \<and>
   webhook_events (snd (redeliver ex_env ex_delivery [''u1'', ''u2''] ex_world_no_escrow)) = [] \<and>
   map account_id (accounts (snd (redeliver ex_env ex_delivery [''u1'', ''u2''] ex_world_no_escrow))) =
     [''u1'', ''u2''] \<and>
   map status (payment_intents (snd (redeliver ex_env ex_delivery [''u1'', ''u2''] ex_world_no_escrow))) =
     [''succeeded'']"
  by (simp add: webhook_stripe_def webhook_dedup_def webhook_handle_def
      payment_succeeded_def select_webhook_event_def upsert_payment_intent_succeeded_def
      select_escrow_def insert_customer_account_def ex_env_def ex_event_def ex_delivery_def
      ex_world_no_escrow_def ex_world_def Let_def)

lemma non_positive_amount_refused:
  "fst (redeliver ex_env_zero ex_delivery [''u1'', ''u2''] ex_world) =
     [(400, Text_webhook_error InvalidAmount), (400, Text_webhook_error InvalidAmount)] \<and>
   transactions (snd (redeliver ex_env_zero ex_delivery [''u1'', ''u2''] ex_world)) = [] \<and>
   webhook_events (snd (redeliver ex_env_zero ex_delivery [''u1'', ''u2''] ex_world)) = [] \<and>
   map account_id (accounts (snd (redeliver ex_env_zero ex_delivery [''u1'', ''u2''] ex_world))) =
     [''acc_escrow'', ''u1'', ''u2'']"
  by (simp add: webhook_stripe_def webhook_dedup_def webhook_handle_def
      payment_succeeded_def select_webhook_event_def upsert_payment_intent_succeeded_def
      select_escrow_def insert_customer_account_def insert_transaction_def
      ex_env_zero_def ex_event_zero_def ex_env_def ex_event_def ex_delivery_def
      ex_world_def ex_escrow_def Let_def)

section \<open>The idempotency cache\<close>

text \<open>
  C2, as the code has it. The cache is written by a plain \<^verbatim>\<open>INSERT\<close> under the
  uniqueness of (key, endpoint). Storing under a pair that already holds a response fails
  with a uniqueness violation, whether the new response differs from the stored one or
  equals it; storing under a free pair succeeds, and a lookup then yields the response
  stored; and no successful store changes what a lookup yields for a pair that already
  held a response.
\<close>

theorem idempotency_store:
  "(select_idempotency_key (idem_key r) (endpoint r) w \<noteq> [] \<longrightarrow>
      insert_idempotency_key r w = Inl (Unique_violation ''idempotency_keys'')) \<and>
   (select_idempotency_key (idem_key r) (endpoint r) w = [] \<longrightarrow>
      insert_idempotency_key r w = Inr (w\<lparr>idempotency_keys := idempotency_keys w @ [r]\<rparr>) \<and>
      select_idempotency_key (idem_key r) (endpoint r)
        (w\<lparr>idempotency_keys := idempotency_keys w @ [r]\<rparr>) = [r]) \<and>
   (select_idempotency_key k ep w \<noteq> [] \<and> insert_idempotency_key r w = Inr w' \<longrightarrow>
      select_idempotency_key k ep w' = select_idempotency_key k ep w)"
proof -
  have "select_idempotency_key (idem_key r) (endpoint r) w = [] \<longrightarrow>
      select_idempotency_key (idem_key r) (endpoint r)
        (w\<lparr>idempotency_keys := idempotency_keys w @ [r]\<rparr>) = [r]"
    by (simp add: select_idempotency_key_def)
  moreover have "select_idempotency_key k ep w \<noteq> [] \<and> insert_idempotency_key r w = Inr w' \<longrightarrow>
      select_idempotency_key k ep w' = select_idempotency_key k ep w"
    using select_after_insert [of r w w' k ep] by blast
  ultimately show ?thesis by (simp add: insert_idempotency_key_def)
qed

theorem idempotency_store_witness:
  "select_idempotency_key (idem_key ex_key_row) (endpoint ex_key_row) ex_world = [] \<and>
   insert_idempotency_key ex_key_row ex_world = Inr ex_world_stored \<and>
   select_idempotency_key ''k1'' ''/v1/payment_intents'' ex_world_stored = [ex_key_row] \<and>
   insert_idempotency_key ex_key_row_other ex_world_stored =
     Inl (Unique_violation ''idempotency_keys'')"
proof -
  have free: "select_idempotency_key (idem_key ex_key_row) (endpoint ex_key_row) ex_world = []"
    by (simp add: select_idempotency_key_def ex_world_def)
  have stored: "ex_world\<lparr>idempotency_keys := idempotency_keys ex_world @ [ex_key_row]\<rparr> =
      ex_world_stored"
    by (simp add: ex_world_stored_def ex_world_def)
  have held: "select_idempotency_key (idem_key ex_key_row_other) (endpoint ex_key_row_other)
      ex_world_stored \<noteq> []"
    by (simp add: select_idempotency_key_def ex_world_stored_def ex_key_row_other_def
        ex_key_row_def)
  have key: "idem_key ex_key_row = ''k1''" "endpoint ex_key_row = ''/v1/payment_intents''"
    by (simp_all add: ex_key_row_def)
  note b = idempotency_store [of ex_key_row ex_world, THEN conjunct2, THEN conjunct1,
      THEN mp, OF free, unfolded stored key]
  note a = idempotency_store [of ex_key_row_other ex_world_stored, THEN conjunct1,
      THEN mp, OF held]
  from free b [THEN conjunct1] b [THEN conjunct2] a show ?thesis by (intro conjI)
qed

text \<open>The claim as stated fails: storing the identical response a second time under the
  same pair does not succeed silently, it is refused.\<close>

theorem identical_store_refused:
  "insert_idempotency_key ex_key_row ex_world = Inr ex_world_stored \<and>
   insert_idempotency_key ex_key_row ex_world_stored =
     Inl (Unique_violation ''idempotency_keys'')"
  by (simp add: insert_idempotency_key_def select_idempotency_key_def ex_world_stored_def
      ex_world_def ex_key_row_def)

section \<open>Retrying create-intent\<close>

text \<open>
  C3, as the code has it. For a valid request, when the cache holds a response for the key
  under the endpoint \<^verbatim>\<open>/v1/payment_intents\<close>, the handler returns the stored response as
  it is, and changes nothing: no remote call, no row. So, when a first call is answered
  with success (status 200), the same call made again returns the same response and
  leaves the state as the first call left it, whatever the remote processor would answer
  then; over both calls at most one remote call is made and at most one mirror row is
  added. (A first call that fails on the remote processor stores nothing; see the
  counterexample.)
\<close>

theorem create_intent_idempotent:
  "(header_idempotency_key r = Some k \<and> k \<noteq> [] \<and>
    Number_isInteger (body_amount_cents r) \<and> \<not> le_zero (body_amount_cents r) \<and>
    select_idempotency_key k ''/v1/payment_intents'' w = row # rest \<longrightarrow>
      create_payment_intent e r w = ((200, Json_intent (response_json row)), w)) \<and>
   (fst (fst (create_payment_intent e r w)) = 200 \<longrightarrow>
      create_payment_intent e' r (snd (create_payment_intent e r w)) =
        create_payment_intent e r w \<and>
      length (stripe_requests (snd (create_payment_intent e r w))) \<le>
        length (stripe_requests w) + 1 \<and>
      length (payment_intents (snd (create_payment_intent e r w))) \<le>
        length (payment_intents w) + 1)"
proof (intro conjI impI)
  assume "header_idempotency_key r = Some k \<and> k \<noteq> [] \<and>
    Number_isInteger (body_amount_cents r) \<and> \<not> le_zero (body_amount_cents r) \<and>
    select_idempotency_key k ''/v1/payment_intents'' w = row # rest"
  then show "create_payment_intent e r w = ((200, Json_intent (response_json row)), w)"
    using create_hit [of r k w row rest e] by blast
next
  assume ok: "fst (fst (create_payment_intent e r w)) = 200"
  from create_200 [OF ok] obtain k' row' rest' where
    v: "header_idempotency_key r = Some k'" "k' \<noteq> []"
      "Number_isInteger (body_amount_cents r)" "\<not> le_zero (body_amount_cents r)"
    and resp: "fst (create_payment_intent e r w) = (200, Json_intent (response_json row'))"
    and sel: "select_idempotency_key k' ''/v1/payment_intents''
               (snd (create_payment_intent e r w)) = row' # rest'"
    and len: "length (stripe_requests (snd (create_payment_intent e r w))) \<le>
               length (stripe_requests w) + 1"
      "length (payment_intents (snd (create_payment_intent e r w))) \<le>
               length (payment_intents w) + 1"
    by blast
  have "create_payment_intent e' r (snd (create_payment_intent e r w)) =
          ((200, Json_intent (response_json row')), snd (create_payment_intent e r w))"
    using v sel by (rule create_hit)
  with resp show "create_payment_intent e' r (snd (create_payment_intent e r w)) =
        create_payment_intent e r w"
    by (simp add: prod_eq_iff)
  from len show "length (stripe_requests (snd (create_payment_intent e r w))) \<le>
        length (stripe_requests w) + 1" by simp
  from len show "length (payment_intents (snd (create_payment_intent e r w))) \<le>
        length (payment_intents w) + 1" by simp
qed

theorem create_intent_idempotent_witness:
  "fst (fst (create_payment_intent ex_env_up ex_request ex_world)) = 200 \<and>
   fst (create_payment_intent ex_env_up ex_request ex_world) = (200, Json_intent ex_response) \<and>
   create_payment_intent ex_env ex_request
       (snd (create_payment_intent ex_env_up ex_request ex_world)) =
     create_payment_intent ex_env_up ex_request ex_world \<and>
   stripe_requests (snd (create_payment_intent ex_env_up ex_request ex_world)) = [ex_call] \<and>
   create_payment_intent ex_env ex_request ex_world_stored =
     ((200, Json_intent ex_response), ex_world_stored)"
proof -
  have run: "create_payment_intent ex_env_up ex_request ex_world =
      ((200, Json_intent ex_response),
       ex_world\<lparr>payment_intents :=
                   [\<lparr>provider = ''stripe'', provider_id = ''pi_X'', amount_cents = 2500,
                     currency = ''usd'', status = ''requires_action''\<rparr>],
                 idempotency_keys := [ex_key_row], stripe_requests := [ex_call]\<rparr>)"
    by (simp add: create_payment_intent_def create_remote_def Number_isInteger_def
        le_zero_def integer_value_def select_idempotency_key_def insert_payment_intent_def
        insert_idempotency_key_def ex_env_up_def ex_env_def ex_request_def ex_world_def
        ex_intent_def ex_response_def ex_key_row_def ex_call_def Let_def)
  then have ok: "fst (fst (create_payment_intent ex_env_up ex_request ex_world)) = 200"
    by simp
  have valid: "header_idempotency_key ex_request = Some ''k1'' \<and> ''k1'' \<noteq> [] \<and>
      Number_isInteger (body_amount_cents ex_request) \<and>
      \<not> le_zero (body_amount_cents ex_request) \<and>
      select_idempotency_key ''k1'' ''/v1/payment_intents'' ex_world_stored = [ex_key_row]"
    by (simp add: ex_request_def Number_isInteger_def le_zero_def select_idempotency_key_def
        ex_world_stored_def ex_key_row_def)
  note c = create_intent_idempotent
  from c [of ex_request _ ex_world _ _ ex_env_up ex_env] ok
  have again: "create_payment_intent ex_env ex_request
       (snd (create_payment_intent ex_env_up ex_request ex_world)) =
     create_payment_intent ex_env_up ex_request ex_world"
    by blast
  from c [of ex_request "''k1''" ex_world_stored ex_key_row "[]" ex_env] valid
  have "create_payment_intent ex_env ex_request ex_world_stored =
     ((200, Json_intent (response_json ex_key_row)), ex_world_stored)"
    by blast
  then have hit: "create_payment_intent ex_env ex_request ex_world_stored =
     ((200, Json_intent ex_response), ex_world_stored)"
    by (simp add: ex_key_row_def)
  from run have "fst (create_payment_intent ex_env_up ex_request ex_world) =
      (200, Json_intent ex_response)"
    and "stripe_requests (snd (create_payment_intent ex_env_up ex_request ex_world)) = [ex_call]"
    by simp_all
  with ok again hit show ?thesis by blast
qed

text \<open>
  The claim as stated fails for a first call on which the remote processor fails: nothing
  is stored, the same call made again reaches the processor a second time, and the two
  responses differ.
\<close>

theorem retry_after_remote_failure:
  "fst (create_payment_intent ex_env ex_request ex_world) =
     (500, Json_error ''Failed to create payment intent'') \<and>
   fst (create_payment_intent ex_env_up ex_request
          (snd (create_payment_intent ex_env ex_request ex_world))) =
     (200, Json_intent ex_response) \<and>
   stripe_requests (snd (create_payment_intent ex_env_up ex_request
          (snd (create_payment_intent ex_env ex_request ex_world)))) =
     [ex_call, ex_call]"
  by (simp add: create_payment_intent_def create_remote_def Number_isInteger_def
      le_zero_def integer_value_def select_idempotency_key_def insert_payment_intent_def
      insert_idempotency_key_def ex_env_up_def ex_env_def ex_request_def ex_world_def
      ex_intent_def ex_response_def ex_call_def Let_def)

section \<open>The ledger\<close>

text \<open>
  C4. The ledger store refuses a transaction whose amount is not greater than zero with
  \<open>InvalidAmount\<close>, and one whose debit or credit account is absent with
  \<open>UnknownAccount\<close> (with \<open>InvalidAmount\<close> when the amount is not greater than zero
  either); a transaction that is accepted has an amount greater than zero and two accounts
  that exist when it is created, and is added as it is. So both handlers keep the ledger
  condition: when every transaction at rest has two existing accounts and an amount
  greater than zero, the same holds after the request.
\<close>

theorem ledger_invariant:
  "(tx_amount_cents t \<le> 0 \<longrightarrow> insert_transaction t w = Inl InvalidAmount) \<and>
   (debit_account t \<notin> account_id ` set (accounts w) \<or>
    credit_account t \<notin> account_id ` set (accounts w) \<longrightarrow>
      insert_transaction t w =
        Inl (if tx_amount_cents t \<le> 0 then InvalidAmount else UnknownAccount)) \<and>
   (insert_transaction t w = Inr w' \<longrightarrow>
      0 < tx_amount_cents t \<and>
      debit_account t \<in> account_id ` set (accounts w) \<and>
      credit_account t \<in> account_id ` set (accounts w) \<and>
      w' = w\<lparr>transactions := transactions w @ [t]\<rparr>) \<and>
   (ledger_ok w \<longrightarrow> ledger_ok (snd (webhook_stripe e r w))) \<and>
   (ledger_ok w \<longrightarrow> ledger_ok (snd (create_payment_intent e' r' w)))"
proof -
  let ?w' = "snd (webhook_stripe e r w)"
  have store: "(tx_amount_cents t \<le> 0 \<longrightarrow> insert_transaction t w = Inl InvalidAmount) \<and>
   (debit_account t \<notin> account_id ` set (accounts w) \<or>
    credit_account t \<notin> account_id ` set (accounts w) \<longrightarrow>
      insert_transaction t w =
        Inl (if tx_amount_cents t \<le> 0 then InvalidAmount else UnknownAccount)) \<and>
   (insert_transaction t w = Inr w' \<longrightarrow>
      0 < tx_amount_cents t \<and>
      debit_account t \<in> account_id ` set (accounts w) \<and>
      credit_account t \<in> account_id ` set (accounts w) \<and>
      w' = w\<lparr>transactions := transactions w @ [t]\<rparr>)"
    by (auto simp: insert_transaction_def split: if_splits)
  define posted where "posted = (\<lambda>(ev::stripe_event) (a::account).
         \<lparr>debit_account = randomUUID e, credit_account = account_id a,
           tx_amount_cents = pi_amount_received (ev_object ev),
           tx_currency = pi_currency (ev_object ev),
           external_ref = pi_id (ev_object ev)\<rparr>)"
  have shape: "transactions ?w' = transactions w \<or>
    (\<exists>ev a. 0 < pi_amount_received (ev_object ev) \<and>
       transactions ?w' = transactions w @ [posted ev a] \<and>
       randomUUID e \<in> account_id ` set (accounts ?w') \<and> a \<in> set (accounts ?w'))"
    using webhook_stripe_cases [of e r w]
  proof
    assume "webhook_stripe e r w = (fst (webhook_stripe e r w), w)"
    then have "?w' = w" by (metis snd_conv)
    then show ?thesis by simp
  next
    assume "\<exists>ev. constructEvent e (raw_body r) (stripe_signature r) = Inr ev \<and>
         webhook_stripe e r w = webhook_handle e ev (sha256_hex e (raw_body r)) w"
    then obtain ev where
      eq: "webhook_stripe e r w = webhook_handle e ev (sha256_hex e (raw_body r)) w"
      by blast
    show ?thesis
      using webhook_handle_transactions [of e ev "sha256_hex e (raw_body r)" w]
      unfolding eq posted_def by blast
  qed
  have sub: "set (accounts w) \<subseteq> set (accounts ?w')"
    using webhook_stripe_cases [of e r w]
  proof
    assume "webhook_stripe e r w = (fst (webhook_stripe e r w), w)"
    then have "?w' = w" by (metis snd_conv)
    then show ?thesis by simp
  next
    assume "\<exists>ev. constructEvent e (raw_body r) (stripe_signature r) = Inr ev \<and>
         webhook_stripe e r w = webhook_handle e ev (sha256_hex e (raw_body r)) w"
    then obtain ev where
      eq: "webhook_stripe e r w = webhook_handle e ev (sha256_hex e (raw_body r)) w"
      by blast
    show ?thesis unfolding eq by (rule webhook_handle_accounts)
  qed
  have inv: "ledger_ok w \<longrightarrow> ledger_ok ?w'"
  proof
    assume ok: "ledger_ok w"
    have old: "\<forall>t \<in> set (transactions w).
        debit_account t \<in> account_id ` set (accounts ?w') \<and>
        credit_account t \<in> account_id ` set (accounts ?w') \<and>
        0 < tx_amount_cents t"
      using ok sub unfolding ledger_ok_def by blast
    from shape show "ledger_ok ?w'"
    proof
      assume "transactions ?w' = transactions w"
      with old show ?thesis unfolding ledger_ok_def by simp
    next
      assume "\<exists>ev a. 0 < pi_amount_received (ev_object ev) \<and>
       transactions ?w' = transactions w @ [posted ev a] \<and>
       randomUUID e \<in> account_id ` set (accounts ?w') \<and> a \<in> set (accounts ?w')"
      then obtain ev a where pos: "0 < pi_amount_received (ev_object ev)"
        and tx: "transactions ?w' = transactions w @ [posted ev a]"
        and d: "randomUUID e \<in> account_id ` set (accounts ?w')"
        and c: "a \<in> set (accounts ?w')"
        by blast
      from c have c': "account_id a \<in> account_id ` set (accounts ?w')" by (rule imageI)
      have "debit_account (posted ev a) = randomUUID e"
        and "credit_account (posted ev a) = account_id a"
        and "tx_amount_cents (posted ev a) = pi_amount_received (ev_object ev)"
        by (simp_all add: posted_def)
      with old d c' pos show ?thesis unfolding ledger_ok_def tx by simp
    qed
  qed
  have inv': "ledger_ok w \<longrightarrow> ledger_ok (snd (create_payment_intent e' r' w))"
    using create_payment_intent_ledger [of e' r' w] by (simp add: ledger_ok_def)
  from store [THEN conjunct1] store [THEN conjunct2, THEN conjunct1]
    store [THEN conjunct2, THEN conjunct2] inv inv'
  show ?thesis by (intro conjI)
qed

theorem ledger_invariant_witness:
  "insert_transaction ex_transaction_zero ex_world = Inl InvalidAmount \<and>
   insert_transaction ex_transaction_stranger ex_world = Inl UnknownAccount \<and>
   ledger_ok ex_world \<and>
   ledger_ok (snd (webhook_stripe ex_env ex_delivery ex_world)) \<and>
   transactions (snd (webhook_stripe ex_env ex_delivery ex_world)) =
     [\<lparr>debit_account = ''u1'', credit_account = ''acc_escrow'', tx_amount_cents = 2500,
       tx_currency = ''usd'', external_ref = ''pi_X''\<rparr>] \<and>
   map account_id (accounts (snd (webhook_stripe ex_env ex_delivery ex_world))) =
     [''acc_escrow'', ''u1''] \<and>
   fst (webhook_stripe ex_env_zero ex_delivery ex_world) =
     (400, Text_webhook_error InvalidAmount) \<and>
   transactions (snd (webhook_stripe ex_env_zero ex_delivery ex_world)) = []"
proof -
  have zero: "tx_amount_cents ex_transaction_zero \<le> 0"
    by (simp add: ex_transaction_zero_def)
  have stranger: "debit_account ex_transaction_stranger \<notin> account_id ` set (accounts ex_world) \<or>
      credit_account ex_transaction_stranger \<notin> account_id ` set (accounts ex_world)"
    by (simp add: ex_transaction_stranger_def ex_world_def ex_escrow_def)
  have pos: "\<not> tx_amount_cents ex_transaction_stranger \<le> 0"
    by (simp add: ex_transaction_stranger_def)
  have start: "ledger_ok ex_world"
    by (simp add: ledger_ok_def ex_world_def)
  note a = ledger_invariant [of ex_transaction_zero ex_world, THEN conjunct1, THEN mp, OF zero]
  note b = ledger_invariant [of ex_transaction_stranger ex_world, THEN conjunct2,
      THEN conjunct1, THEN mp, OF stranger]
  from b pos have b': "insert_transaction ex_transaction_stranger ex_world = Inl UnknownAccount"
    by simp
  note kept = ledger_invariant [of _ ex_world _ ex_env ex_delivery, THEN conjunct2,
      THEN conjunct2, THEN conjunct2, THEN conjunct1, THEN mp, OF start]
  have run: "transactions (snd (webhook_stripe ex_env ex_delivery ex_world)) =
     [\<lparr>debit_account = ''u1'', credit_account = ''acc_escrow'', tx_amount_cents = 2500,
       tx_currency = ''usd'', external_ref = ''pi_X''\<rparr>] \<and>
   map account_id (accounts (snd (webhook_stripe ex_env ex_delivery ex_world))) =
     [''acc_escrow'', ''u1'']"
    by (simp add: webhook_stripe_def webhook_dedup_def webhook_handle_def
      payment_succeeded_def select_webhook_event_def upsert_payment_intent_succeeded_def
      select_escrow_def insert_customer_account_def insert_transaction_def
      insert_webhook_event_def ex_env_def ex_event_def ex_delivery_def
      ex_world_def ex_escrow_def Let_def)
  have refused: "fst (webhook_stripe ex_env_zero ex_delivery ex_world) =
     (400, Text_webhook_error InvalidAmount) \<and>
   transactions (snd (webhook_stripe ex_env_zero ex_delivery ex_world)) = []"
    by (simp add: webhook_stripe_def webhook_dedup_def webhook_handle_def
      payment_succeeded_def select_webhook_event_def upsert_payment_intent_succeeded_def
      select_escrow_def insert_customer_account_def insert_transaction_def
      ex_env_zero_def ex_event_zero_def ex_env_def ex_event_def ex_delivery_def
      ex_world_def ex_escrow_def Let_def)
  from a b' start kept run [THEN conjunct1] run [THEN conjunct2]
    refused [THEN conjunct1] refused [THEN conjunct2]
  show ?thesis by (intro conjI)
qed

section \<open>The de-duplication gate\<close>

text \<open>
  C5. A verified delivery whose event id is already recorded is answered
  \<open>{ok: true, deduped: true}\<close> at once, and the whole state is left as it was: no mirror
  update, no account, no transaction and no new record of the event.
\<close>

theorem dedup_gate:
  assumes "constructEvent e (raw_body r) (stripe_signature r) = Inr ev"
    and "ev_id ev \<in> event_id ` set (webhook_events w)"
  shows "webhook_stripe e r w = ((200, Json_ok_deduped), w)"
  using assms by (rule webhook_stripe_recorded)

theorem dedup_gate_witness:
  "constructEvent ex_env_up (raw_body ex_delivery) (stripe_signature ex_delivery) = Inr ex_event \<and>
   ev_id ex_event \<in> event_id ` set (webhook_events (snd (webhook_stripe ex_env ex_delivery ex_world))) \<and>
   webhook_stripe ex_env_up ex_delivery (snd (webhook_stripe ex_env ex_delivery ex_world)) =
     ((200, Json_ok_deduped), snd (webhook_stripe ex_env ex_delivery ex_world))"
proof -
  have h1: "constructEvent ex_env_up (raw_body ex_delivery) (stripe_signature ex_delivery) =
      Inr ex_event"
    by (simp add: ex_env_up_def ex_env_def ex_delivery_def)
  have h2: "ev_id ex_event \<in>
      event_id ` set (webhook_events (snd (webhook_stripe ex_env ex_delivery ex_world)))"
    by (simp add: webhook_stripe_def webhook_dedup_def webhook_handle_def
      payment_succeeded_def select_webhook_event_def upsert_payment_intent_succeeded_def
      select_escrow_def insert_customer_account_def insert_transaction_def
      insert_webhook_event_def ex_env_def ex_event_def ex_delivery_def
      ex_world_def ex_escrow_def Let_def)
  from h1 h2 dedup_gate [OF h1 h2] show ?thesis by blast
qed

section \<open>Rejected webhooks\<close>

text \<open>
  C6. A webhook request whose signature header does not verify against the raw payload
  (\<^verbatim>\<open>constructEvent\<close> throws) is answered with status 400 and the error's message, and
  the state is left as it was: no event is recorded and no transaction is posted.
\<close>

theorem webhook_invalid_signature:
  assumes "constructEvent e (raw_body r) (stripe_signature r) = Inl msg"
  shows "webhook_stripe e r w = ((400, Text_webhook_error (Thrown msg)), w)"
  using assms by (simp add: webhook_stripe_def webhook_dedup_def)

theorem webhook_invalid_signature_witness:
  "constructEvent ex_env (raw_body ex_forged) (stripe_signature ex_forged) =
     Inl ''No signatures found matching the expected signature for payload'' \<and>
   webhook_stripe ex_env ex_forged ex_world =
     ((400, Text_webhook_error
        (Thrown ''No signatures found matching the expected signature for payload'')), ex_world)"
proof -
  have h: "constructEvent ex_env (raw_body ex_forged) (stripe_signature ex_forged) =
     Inl ''No signatures found matching the expected signature for payload''"
    by (simp add: ex_env_def ex_forged_def)
  from h webhook_invalid_signature [OF h, of ex_world] show ?thesis by simp
qed

section \<open>Validation of create-intent\<close>

text \<open>
  C7. A request without an idempotency key (the header absent, or empty) is answered 400
  "Missing Idempotency-Key"; a request with a key whose \<^verbatim>\<open>amount_cents\<close> is not a
  positive integer is answered 400 "amount_cents must be a positive integer". In both
  cases nothing else happens: the state, with its history of remote calls, is unchanged.
\<close>

theorem create_intent_validation:
  "(header_idempotency_key r = None \<or> header_idempotency_key r = Some [] \<longrightarrow>
      create_payment_intent e r w = ((400, Json_error ''Missing Idempotency-Key''), w)) \<and>
   (header_idempotency_key r = Some k \<and> k \<noteq> [] \<and>
    (\<not> Number_isInteger (body_amount_cents r) \<or> le_zero (body_amount_cents r)) \<longrightarrow>
      create_payment_intent e r w =
        ((400, Json_error ''amount_cents must be a positive integer''), w))"
  by (auto simp: create_payment_intent_def)

theorem create_intent_validation_witness:
  "create_payment_intent ex_env_up ex_request_no_key ex_world =
     ((400, Json_error ''Missing Idempotency-Key''), ex_world) \<and>
   create_payment_intent ex_env_up ex_request_negative ex_world =
     ((400, Json_error ''amount_cents must be a positive integer''), ex_world) \<and>
   create_payment_intent ex_env_up ex_request_fraction ex_world =
     ((400, Json_error ''amount_cents must be a positive integer''), ex_world)"
proof -
  have h1: "header_idempotency_key ex_request_no_key = None \<or>
      header_idempotency_key ex_request_no_key = Some []"
    by (simp add: ex_request_no_key_def)
  have h2: "header_idempotency_key ex_request_negative = Some ''k1'' \<and> ''k1'' \<noteq> [] \<and>
      (\<not> Number_isInteger (body_amount_cents ex_request_negative) \<or>
       le_zero (body_amount_cents ex_request_negative))"
    by (simp add: ex_request_negative_def ex_request_def le_zero_def)
  have h3: "header_idempotency_key ex_request_fraction = Some ''k1'' \<and> ''k1'' \<noteq> [] \<and>
      (\<not> Number_isInteger (body_amount_cents ex_request_fraction) \<or>
       le_zero (body_amount_cents ex_request_fraction))"
    by code_simp
  note a = create_intent_validation [of ex_request_no_key ex_env_up ex_world,
      THEN conjunct1, THEN mp, OF h1]
  note b = create_intent_validation [of ex_request_negative ex_env_up ex_world "''k1''",
      THEN conjunct2, THEN mp, OF h2]
  note c = create_intent_validation [of ex_request_fraction ex_env_up ex_world "''k1''",
      THEN conjunct2, THEN mp, OF h3]
  from a b c show ?thesis by (intro conjI)
qed

section \<open>Failure of the remote call\<close>

text \<open>
  C8. For a valid request that misses the cache, when the remote processor's create-intent
  call fails, the handler answers 500 "Failed to create payment intent" and no table is
  changed: the mirror row and the cache entry are not written. The state differs from the
  starting state only by the remote call that was made.
\<close>

theorem create_intent_remote_failure:
  assumes "header_idempotency_key r = Some k" and "k \<noteq> []"
    and "Number_isInteger (body_amount_cents r)" and "\<not> le_zero (body_amount_cents r)"
    and "select_idempotency_key k ''/v1/payment_intents'' w = []"
    and "paymentIntents_create e
           \<lparr>call_amount = integer_value (body_amount_cents r),
            call_currency = (case body_currency r of None \<Rightarrow> ''usd'' | Some c \<Rightarrow> c),
            call_metadata = (case body_metadata r of None \<Rightarrow> [] | Some m \<Rightarrow> m),
            call_idempotencyKey = k\<rparr> = Inl msg"
  shows "create_payment_intent e r w =
           ((500, Json_error ''Failed to create payment intent''),
            w\<lparr>stripe_requests := stripe_requests w @
                 [\<lparr>call_amount = integer_value (body_amount_cents r),
                   call_currency = (case body_currency r of None \<Rightarrow> ''usd'' | Some c \<Rightarrow> c),
                   call_metadata = (case body_metadata r of None \<Rightarrow> [] | Some m \<Rightarrow> m),
                   call_idempotencyKey = k\<rparr>]\<rparr>)"
  using assms by (simp add: create_payment_intent_def create_remote_def)

theorem create_intent_remote_failure_witness:
  "create_payment_intent ex_env ex_request ex_world =
     ((500, Json_error ''Failed to create payment intent''),
      ex_world\<lparr>stripe_requests := [ex_call]\<rparr>)"
proof -
  have h1: "header_idempotency_key ex_request = Some ''k1''" and h2: "''k1'' \<noteq> []"
    and h3: "Number_isInteger (body_amount_cents ex_request)"
    and h4: "\<not> le_zero (body_amount_cents ex_request)"
    by (simp_all add: ex_request_def Number_isInteger_def le_zero_def)
  have h5: "select_idempotency_key ''k1'' ''/v1/payment_intents'' ex_world = []"
    by (simp add: select_idempotency_key_def ex_world_def)
  have h6: "paymentIntents_create ex_env
           \<lparr>call_amount = integer_value (body_amount_cents ex_request),
            call_currency = (case body_currency ex_request of None \<Rightarrow> ''usd'' | Some c \<Rightarrow> c),
            call_metadata = (case body_metadata ex_request of None \<Rightarrow> [] | Some m \<Rightarrow> m),
            call_idempotencyKey = ''k1''\<rparr> = Inl ''connection error''"
    by (simp add: ex_env_def)
  from create_intent_remote_failure [OF h1 h2 h3 h4 h5 h6]
  show ?thesis
    by (simp add: ex_request_def integer_value_def ex_call_def ex_world_def)
qed

section \<open>A first-seen payment success\<close>

text \<open>
  C9, as the code has it. For a verified payment-success event whose id is not yet
  recorded and whose reported amount is greater than zero, when a platform-escrow account
  exists (the handler looks it up and never creates it): the request is answered \<open>{ok: true}\<close>; the mirror holds a row of the
  processor payment reference with status \<^verbatim>\<open>succeeded\<close>; the customer account of the id
  drawn for this event exists, with the escrow account; exactly one transaction is added,
  debiting the customer account and crediting the escrow account for the reported amount
  and currency, with the processor payment reference as its external reference; and the
  event is recorded.
\<close>

theorem first_seen_payment_succeeded:
  assumes run: "webhook_stripe e r w = (resp, w')"
    and verified: "constructEvent e (raw_body r) (stripe_signature r) = Inr ev"
    and kind: "ev_type ev = ''payment_intent.succeeded''"
    and fresh: "ev_id ev \<notin> event_id ` set (webhook_events w)"
    and escrow: "select_escrow w = [a]"
    and positive: "0 < pi_amount_received (ev_object ev)"
  shows "resp = (200, Json_ok) \<and>
         (\<exists>p \<in> set (payment_intents w').
            provider_id p = pi_id (ev_object ev) \<and> status p = ''succeeded'') \<and>
         randomUUID e \<in> account_id ` set (accounts w') \<and>
         a \<in> set (accounts w') \<and> account_type a = ''platform_escrow'' \<and>
         transactions w' = transactions w @
           [\<lparr>debit_account = randomUUID e, credit_account = account_id a,
             tx_amount_cents = pi_amount_received (ev_object ev),
             tx_currency = pi_currency (ev_object ev),
             external_ref = pi_id (ev_object ev)\<rparr>] \<and>
         webhook_events w' = webhook_events w @
           [\<lparr>event_id = ev_id ev, event_type = ev_type ev,
             payload_hash = sha256_hex e (raw_body r)\<rparr>]"
proof -
  let ?nm = "''Customer '' @ (case pi_customer (ev_object ev) of None \<Rightarrow> ''anon'' | Some c \<Rightarrow> c)"
  let ?w1 = "upsert_payment_intent_succeeded (pi_id (ev_object ev))
               (pi_amount_received (ev_object ev)) (pi_currency (ev_object ev)) w"
  let ?w2 = "insert_customer_account (randomUUID e) ?nm ?w1"
  let ?t = "\<lparr>debit_account = randomUUID e, credit_account = account_id a,
             tx_amount_cents = pi_amount_received (ev_object ev),
             tx_currency = pi_currency (ev_object ev),
             external_ref = pi_id (ev_object ev)\<rparr>"
  let ?row = "\<lparr>event_id = ev_id ev, event_type = ev_type ev,
             payload_hash = sha256_hex e (raw_body r)\<rparr>"
  have none: "filter (\<lambda>x. event_id x = ev_id ev) (webhook_events w) = []"
    using fresh by (rule first_seen)
  have dedup: "webhook_dedup e r w = Inr (ev, sha256_hex e (raw_body r))"
    using verified none by (simp add: webhook_dedup_def select_webhook_event_def)
  have "webhook_stripe e r w =
          ((200, Json_ok),
           ?w2\<lparr>transactions := transactions w @ [?t],
                webhook_events := webhook_events w @ [?row]\<rparr>)"
    using dedup kind none payment_succeeded_escrow [OF escrow positive, of e]
    by (simp add: webhook_stripe_def webhook_handle_def insert_webhook_event_def)
  with run have resp: "resp = (200, Json_ok)"
    and w': "w' = ?w2\<lparr>transactions := transactions w @ [?t],
                        webhook_events := webhook_events w @ [?row]\<rparr>"
    by simp_all
  have pis: "payment_intents w' = payment_intents ?w1" by (simp add: w')
  have accs: "accounts w' = accounts ?w2" by (simp add: w')
  have "a \<in> set (accounts w)" "account_type a = ''platform_escrow''"
    using select_escrow_member [OF escrow] by simp_all
  then have "a \<in> set (accounts w')"
    using accounts_kept [of ?w1 "randomUUID e" ?nm] accs by auto
  moreover have "randomUUID e \<in> account_id ` set (accounts w')"
    unfolding accs by (rule account_inserted)
  moreover have "\<exists>p \<in> set (payment_intents w').
            provider_id p = pi_id (ev_object ev) \<and> status p = ''succeeded''"
    unfolding pis by (rule upsert_status)
  moreover have "transactions w' = transactions w @ [?t]" by (simp add: w')
  moreover have "webhook_events w' = webhook_events w @ [?row]" by (simp add: w')
  ultimately show ?thesis using resp \<open>account_type a = ''platform_escrow''\<close> by blast
qed

theorem first_seen_payment_succeeded_witness:
  "constructEvent ex_env (raw_body ex_delivery) (stripe_signature ex_delivery) = Inr ex_event \<and>
   ev_type ex_event = ''payment_intent.succeeded'' \<and>
   ev_id ex_event \<notin> event_id ` set (webhook_events ex_world) \<and>
   select_escrow ex_world = [ex_escrow] \<and>
   0 < pi_amount_received (ev_object ex_event) \<and>
   fst (webhook_stripe ex_env ex_delivery ex_world) = (200, Json_ok) \<and>
   transactions (snd (webhook_stripe ex_env ex_delivery ex_world)) =
     [\<lparr>debit_account = ''u1'', credit_account = ''acc_escrow'', tx_amount_cents = 2500,
       tx_currency = ''usd'', external_ref = ''pi_X''\<rparr>] \<and>
   webhook_events (snd (webhook_stripe ex_env ex_delivery ex_world)) =
     [\<lparr>event_id = ''evt_1'', event_type = ''payment_intent.succeeded'',
       payload_hash = ''h1''\<rparr>]"
proof -
  have h1: "constructEvent ex_env (raw_body ex_delivery) (stripe_signature ex_delivery) =
      Inr ex_event"
    by (simp add: ex_env_def ex_delivery_def)
  have h2: "ev_type ex_event = ''payment_intent.succeeded''"
    by (simp add: ex_event_def)
  have h3: "ev_id ex_event \<notin> event_id ` set (webhook_events ex_world)"
    by (simp add: ex_world_def)
  have h4: "select_escrow ex_world = [ex_escrow]"
    by (simp add: select_escrow_def ex_world_def ex_escrow_def)
  have run: "webhook_stripe ex_env ex_delivery ex_world =
      (fst (webhook_stripe ex_env ex_delivery ex_world),
       snd (webhook_stripe ex_env ex_delivery ex_world))"
    by simp
  have h5: "0 < pi_amount_received (ev_object ex_event)"
    by (simp add: ex_event_def)
  note c = first_seen_payment_succeeded [OF run h1 h2 h3 h4 h5]
  from c have "fst (webhook_stripe ex_env ex_delivery ex_world) = (200, Json_ok)"
    by blast
  moreover from c have "transactions (snd (webhook_stripe ex_env ex_delivery ex_world)) =
     [\<lparr>debit_account = ''u1'', credit_account = ''acc_escrow'', tx_amount_cents = 2500,
       tx_currency = ''usd'', external_ref = ''pi_X''\<rparr>]"
    by (simp add: ex_env_def ex_event_def ex_escrow_def ex_world_def)
  moreover from c have "webhook_events (snd (webhook_stripe ex_env ex_delivery ex_world)) =
     [\<lparr>event_id = ''evt_1'', event_type = ''payment_intent.succeeded'',
       payload_hash = ''h1''\<rparr>]"
    by (simp add: ex_env_def ex_event_def ex_world_def)
  ultimately show ?thesis using h1 h2 h3 h4 h5 by blast
qed

text \<open>
  The claim as stated fails: with no platform-escrow account the handler creates none. The
  first-seen payment-success event is answered with an error, no transaction is posted
  and the event is not recorded.
\<close>

theorem escrow_never_created:
  "select_escrow ex_world_no_escrow = [] \<and>
   fst (webhook_stripe ex_env ex_delivery ex_world_no_escrow) =
     (400, Text_webhook_error TypeError_undefined) \<and>
   select_escrow (snd (webhook_stripe ex_env ex_delivery ex_world_no_escrow)) = [] \<and>
   transactions (snd (webhook_stripe ex_env ex_delivery ex_world_no_escrow)) = [] \<and>
   webhook_events (snd (webhook_stripe ex_env ex_delivery ex_world_no_escrow)) = []"
  by (simp add: webhook_stripe_def webhook_dedup_def webhook_handle_def
      payment_succeeded_def select_webhook_event_def upsert_payment_intent_succeeded_def
      select_escrow_def insert_customer_account_def ex_env_def ex_event_def ex_delivery_def
      ex_world_no_escrow_def ex_world_def Let_def)

section \<open>The cache hit does not read the body\<close>

text \<open>
  C10. When an entry is stored for a key under the endpoint, any two valid requests that
  carry the key get the same answer, whatever their \<^verbatim>\<open>amount_cents\<close>, currency and
  metadata and whatever the remote processor would answer: the stored response, with
  status 200 and no conflict, and the state unchanged. A retried request that differs from
  the one that was cached is not detected.
\<close>

theorem cache_hit_ignores_body:
  assumes "select_idempotency_key k ''/v1/payment_intents'' w = row # rest"
    and "k \<noteq> []"
    and "header_idempotency_key r = Some k"
    and "Number_isInteger (body_amount_cents r)" and "\<not> le_zero (body_amount_cents r)"
    and "header_idempotency_key r' = Some k"
    and "Number_isInteger (body_amount_cents r')" and "\<not> le_zero (body_amount_cents r')"
  shows "create_payment_intent e' r' w = create_payment_intent e r w \<and>
         fst (create_payment_intent e' r' w) = (200, Json_intent (response_json row)) \<and>
         snd (create_payment_intent e' r' w) = w"
proof -
  have "create_payment_intent e r w = ((200, Json_intent (response_json row)), w)"
    using assms(3,2,4,5,1) by (rule create_hit)
  moreover have "create_payment_intent e' r' w = ((200, Json_intent (response_json row)), w)"
    using assms(6,2,7,8,1) by (rule create_hit)
  ultimately show ?thesis by simp
qed

theorem cache_hit_ignores_body_witness:
  "select_idempotency_key ''k1'' ''/v1/payment_intents'' ex_world_stored = [ex_key_row] \<and>
   body_amount_cents ex_request_other \<noteq> body_amount_cents ex_request \<and>
   body_currency ex_request_other \<noteq> body_currency ex_request \<and>
   create_payment_intent ex_env_up ex_request_other ex_world_stored =
     create_payment_intent ex_env ex_request ex_world_stored \<and>
   create_payment_intent ex_env_up ex_request_other ex_world_stored =
     ((200, Json_intent ex_response), ex_world_stored)"
proof -
  have h1: "select_idempotency_key ''k1'' ''/v1/payment_intents'' ex_world_stored =
      ex_key_row # []"
    by (simp add: select_idempotency_key_def ex_world_stored_def ex_key_row_def)
  have h2: "''k1'' \<noteq> []" by simp
  have h3: "header_idempotency_key ex_request = Some ''k1''"
    and h4: "Number_isInteger (body_amount_cents ex_request)"
    and h5: "\<not> le_zero (body_amount_cents ex_request)"
    by (simp_all add: ex_request_def Number_isInteger_def le_zero_def)
  have h6: "header_idempotency_key ex_request_other = Some ''k1''"
    and h7: "Number_isInteger (body_amount_cents ex_request_other)"
    and h8: "\<not> le_zero (body_amount_cents ex_request_other)"
    by (simp_all add: ex_request_other_def ex_request_def Number_isInteger_def le_zero_def)
  have differ: "body_amount_cents ex_request_other \<noteq> body_amount_cents ex_request \<and>
      body_currency ex_request_other \<noteq> body_currency ex_request"
    by (simp add: ex_request_other_def ex_request_def)
  note c = cache_hit_ignores_body [OF h1 h2 h3 h4 h5 h6 h7 h8, of ex_env_up ex_env]
  from c [THEN conjunct2]
  have res: "create_payment_intent ex_env_up ex_request_other ex_world_stored =
     ((200, Json_intent ex_response), ex_world_stored)"
    by (cases "create_payment_intent ex_env_up ex_request_other ex_world_stored")
       (simp add: ex_key_row_def)
  from c [THEN conjunct1]
  have same: "create_payment_intent ex_env_up ex_request_other ex_world_stored =
     create_payment_intent ex_env ex_request ex_world_stored" .
  from h1 differ [THEN conjunct1] differ [THEN conjunct2] same res
  show ?thesis by (intro conjI)
qed

end
